theory Spec2Isabelle
  imports Complex_Main "HOL-Library.Sublist"
begin

section \<open>Python values and exceptions\<close>

text \<open>
  The generator is Python code driving an external optimisation engine (the Ax client).
  Exceptions are values: an exception is its class and its message, a statement that may
  raise returns \<open>py_error + 'a\<close>, and a call that may both mutate the engine and raise
  returns the result together with the engine's next state. Numbers (parameter values,
  bounds, objective values) are modelled as reals; the bridge only stores, copies and
  compares them.
\<close>

datatype exc_class =
  AttributeError | TypeError | ValueError | KeyError | IndexError | UnboundLocalError
  | RuntimeError

type_synonym py_error = "exc_class \<times> string"

section \<open>Search-space translator\<close>

text \<open>
  A \<open>VaryingParameter\<close> as \<open>_create_ax_parameters\<close> reads it. The field
  \<open>dtype_kind\<close> is the one-character kind code of \<open>np.dtype(var.dtype)\<close>
  (\<open>f\<close> floating point, \<open>i\<close> signed integer, \<open>u\<close> unsigned integer, \<open>b\<close> boolean,
  \<open>c\<close> complex, \<open>O\<close> object, ...), which is all the translator looks at.
\<close>

record VaryingParameter =
  var_name :: string
  dtype_kind :: char
  lower_bound :: real
  upper_bound :: real
  is_fidelity :: bool
  fidelity_target_value :: "real option"
  is_fixed :: bool
  default_value :: "real option"

text \<open>The dictionary emitted for one parameter, key by key.\<close>

record ax_parameter =
  p_name :: string
  p_type :: string
  p_bounds :: "real list"
  p_is_fidelity :: bool
  p_target_value :: "real option"
  p_value_type :: string

type_synonym fixed_parameters = "string \<rightharpoonup> real option"

definition dtype_message :: string where
  "dtype_message =
     ''Ax range parameter can only be of type 'float'ot 'int', not {var.dtype}.''"

text \<open>
  The loop of \<open>_create_ax_parameters\<close> over \<open>self._varying_parameters\<close>, with the
  two accumulators \<open>parameters\<close> and \<open>fixed_parameters\<close>. The message of the
  \<open>ValueError\<close> is a plain string literal in the source (no \<open>f\<close> prefix), so it is
  the same text for every parameter.
\<close>

fun create_ax_parameters_loop ::
  "VaryingParameter list \<Rightarrow> ax_parameter list \<Rightarrow> fixed_parameters
     \<Rightarrow> py_error + (ax_parameter list \<times> fixed_parameters)" where
  "create_ax_parameters_loop [] parameters fixed = Inr (parameters, fixed)"
| "create_ax_parameters_loop (var # vars) parameters fixed =
     (if dtype_kind var = CHR ''f'' \<or> dtype_kind var = CHR ''i'' then
        create_ax_parameters_loop vars
          (parameters @
             [\<lparr>p_name = var_name var, p_type = ''range'',
               p_bounds = [lower_bound var, upper_bound var],
               p_is_fidelity = is_fidelity var,
               p_target_value = fidelity_target_value var,
               p_value_type = (if dtype_kind var = CHR ''f'' then ''float'' else ''int'')\<rparr>])
          (if is_fixed var then fixed(var_name var \<mapsto> default_value var) else fixed)
      else Inl (ValueError, dtype_message))"


record Objective =
  obj_name :: string
  minimize :: bool

text \<open>
  The attributes of the generator (\<open>self\<close>) that the bridge reads or writes.
  \<open>fixed_features\<close> is \<open>None\<close> until \<open>_create_ax_parameters\<close> has run;
  \<open>ax_client\<close> is the reference to the engine-client object (its address in a store).
\<close>

record AxServiceGenerator =
  varying_parameters :: "VaryingParameter list"
  objectives :: "Objective list"
  enforce_n_init :: bool
  abandon_failed_trials :: bool
  fixed_features :: "fixed_parameters option"
  ax_client :: nat

text \<open>
  \<open>_create_ax_parameters\<close>: the loop, then the assignment to
  \<open>self._fixed_features\<close>, which a raise in the loop skips.
\<close>

definition create_ax_parameters ::
  "AxServiceGenerator \<Rightarrow> (py_error + ax_parameter list) \<times> AxServiceGenerator" where
  "create_ax_parameters self =
     (case create_ax_parameters_loop (varying_parameters self) [] Map.empty of
        Inl e \<Rightarrow> (Inl e, self)
      | Inr (parameters, fixed) \<Rightarrow> (Inr parameters, self\<lparr>fixed_features := Some fixed\<rparr>))"

section \<open>The engine client\<close>

text \<open>
  The generation strategy of the engine, with the fields the bridge touches directly:
  the steps, the current step (an index into the steps, for \<open>_curr\<close>), each step's
  model kind, \<open>num_trials\<close>, transition criteria and fitted model
  (\<open>model_spec._fitted_model\<close>), and the strategy's cached \<open>_model\<close>.
\<close>

datatype Models = SOBOL | GPEI | BOTORCH_MODULAR

record TransitionCriterion =
  threshold :: int

record 'm GenerationStep =
  model :: Models
  num_trials :: int
  transition_criteria :: "TransitionCriterion list"
  fitted_model :: "'m option"

record 'm GenerationStrategy =
  steps :: "'m GenerationStep list"
  curr :: nat
  gs_model :: "'m option"

definition current_step :: "'m GenerationStrategy \<Rightarrow> 'm GenerationStep" where
  "current_step gs = steps gs ! curr gs"

text \<open>
  The client: its generation strategy, the metric names of
  \<open>experiment.optimization_config.outcome_constraints\<close>, and the rest of the
  engine's state (its trials and data), which only the engine's own operations touch.
\<close>

record ('m, 'e) AxClient =
  generation_strategy :: "'m GenerationStrategy"
  outcome_constraints :: "string list"
  ax_experiment :: 'e

type_synonym parameterization = "string \<rightharpoonup> real"
type_synonym raw_data = "string \<rightharpoonup> real \<times> real option"
type_synonym pareto_entry =
  "int \<times> (parameterization \<times> ((string \<rightharpoonup> real) \<times> (string \<rightharpoonup> (string \<rightharpoonup> real))))"
type_synonym best_parameters =
  "parameterization \<times> ((string \<rightharpoonup> real) \<times> (string \<rightharpoonup> (string \<rightharpoonup> real))) option"

datatype next_trial_args = NoArguments | FixedFeatures "fixed_parameters option"

text \<open>
  The engine is external: its operations are parameters of the bridge. Each takes the
  client's state and returns what the call returns, or the exception it raises, with the
  client's next state. \<open>ax_version_ge_0_3_5\<close> is the outcome of
  \<open>version.parse(ax_version) >= version.parse("0.3.5")\<close>; \<open>'t\<close> is the engine's
  trial object as \<open>get_trial\<close> returns it.
\<close>

record ('m, 'e, 't) Engine =
  ax_version_ge_0_3_5 :: bool
  get_next_trial ::
    "next_trial_args \<Rightarrow> ('m, 'e) AxClient
       \<Rightarrow> (py_error + (parameterization \<times> int)) \<times> ('m, 'e) AxClient"
  get_trial ::
    "int option \<Rightarrow> ('m, 'e) AxClient \<Rightarrow> (py_error + 't) \<times> ('m, 'e) AxClient"
  attach_trial ::
    "(string \<rightharpoonup> real option) \<Rightarrow> ('m, 'e) AxClient
       \<Rightarrow> (py_error + int) \<times> ('m, 'e) AxClient"
  maybe_move_to_next_step ::
    "('m, 'e) AxClient \<Rightarrow> (py_error + unit) \<times> ('m, 'e) AxClient"
  complete_trial ::
    "int option \<Rightarrow> raw_data \<Rightarrow> ('m, 'e) AxClient
       \<Rightarrow> (py_error + unit) \<times> ('m, 'e) AxClient"
  mark_abandoned :: "'t \<Rightarrow> ('m, 'e) AxClient \<Rightarrow> (py_error + unit) \<times> ('m, 'e) AxClient"
  mark_failed :: "'t \<Rightarrow> ('m, 'e) AxClient \<Rightarrow> (py_error + unit) \<times> ('m, 'e) AxClient"
  get_pareto_optimal_parameters ::
    "('m, 'e) AxClient \<Rightarrow> (py_error + pareto_entry list) \<times> ('m, 'e) AxClient"
  get_best_parameters ::
    "('m, 'e) AxClient \<Rightarrow> (py_error + best_parameters option) \<times> ('m, 'e) AxClient"

section \<open>Trials\<close>

text \<open>
  Modelled from the spec: the \<open>Trial\<close> class and \<open>TrialStatus\<close> of
  \<open>optimas.core\<close> are not among the sources. A trial has a status
  (pending, completed, failed or other), ordered parameter values aligned to its varying
  parameters, objective and parameter evaluations (a value and a standard error under a
  parameter name), and a nullable engine trial id that is absent until the first ask or
  attach. Reading an attribute that is absent raises \<open>AttributeError\<close>; \<open>completed\<close>
  and \<open>failed\<close> are the two properties the bridge reads.
\<close>

datatype TrialStatus = PENDING | COMPLETED | FAILED | OTHER

datatype 'a attribute = NoAttribute | Attribute 'a

record Evaluation =
  ev_name :: string
  ev_value :: real
  ev_sem :: "real option"

record Trial =
  trial_varying_parameters :: "VaryingParameter list"
  parameter_values :: "real option list"
  ax_trial_id :: "int option attribute"
  status :: TrialStatus
  objective_evaluations :: "Evaluation list"
  parameter_evaluations :: "Evaluation list"

definition completed :: "Trial \<Rightarrow> bool" where
  "completed trial = (status trial = COMPLETED)"

definition failed :: "Trial \<Rightarrow> bool" where
  "failed trial = (status trial = FAILED)"

section \<open>Ask\<close>

text \<open>
  The \<open>try\<close> statement of \<open>_ask\<close>: the request with the fixed features, and the
  request without them when the first raises \<open>TypeError\<close>.
\<close>

definition request_next_trial ::
  "('m, 'e, 't) Engine \<Rightarrow> AxServiceGenerator \<Rightarrow> ('m, 'e) AxClient
     \<Rightarrow> (py_error + (parameterization \<times> int)) \<times> ('m, 'e) AxClient" where
  "request_next_trial eng self c =
     (case get_next_trial eng (FixedFeatures (fixed_features self)) c of
        (Inl e, c1) \<Rightarrow>
          if fst e = TypeError then get_next_trial eng NoArguments c1 else (Inl e, c1)
      | (Inr r, c1) \<Rightarrow> (Inr r, c1))"

text \<open>
  The body of the loop of \<open>_ask\<close> for one trial: the request, then the two
  assignments to the trial. An exception leaves the loop before the assignments.
\<close>

definition ask_trial ::
  "('m, 'e, 't) Engine \<Rightarrow> AxServiceGenerator \<Rightarrow> Trial \<Rightarrow> ('m, 'e) AxClient
     \<Rightarrow> (py_error + Trial) \<times> ('m, 'e) AxClient" where
  "ask_trial eng self trial c =
     (case request_next_trial eng self c of
        (Inl e, c2) \<Rightarrow> (Inl e, c2)
      | (Inr (parameters, trial_id), c2) \<Rightarrow>
          (Inr (trial\<lparr>parameter_values :=
                        map (\<lambda>var. parameters (var_name var)) (varying_parameters self),
                      ax_trial_id := Attribute (Some trial_id)\<rparr>), c2))"

text \<open>
  \<open>_ask\<close>: the loop over the trials. The trials are objects mutated in place, so the
  result holds the exception, if one was raised, the trials as the call leaves them, and
  the client.
\<close>

fun ask ::
  "('m, 'e, 't) Engine \<Rightarrow> AxServiceGenerator \<Rightarrow> Trial list \<Rightarrow> ('m, 'e) AxClient
     \<Rightarrow> py_error option \<times> Trial list \<times> ('m, 'e) AxClient" where
  "ask eng self [] c = (None, [], c)"
| "ask eng self (trial # trials) c =
     (case ask_trial eng self trial c of
        (Inl e, c1) \<Rightarrow> (Some e, trial # trials, c1)
      | (Inr trial', c1) \<Rightarrow>
          (case ask eng self trials c1 of (r, trials', c2) \<Rightarrow> (r, trial' # trials', c2)))"


section \<open>Tell\<close>

text \<open>
  \<open>trial_id\<close> and \<open>ax_trial\<close> are local variables of \<open>_tell\<close>, assigned in
  the \<open>try\<close> and \<open>except\<close> blocks and read in the \<open>finally\<close> block. They are
  unbound (\<open>None\<close>) when the call starts and keep their values from one iteration of
  the loop to the next; reading an unbound one raises \<open>UnboundLocalError\<close>.
\<close>

record 't tell_locals =
  trial_id :: "int option option"
  ax_trial :: "'t option"

text \<open>The \<open>try\<close> block: read the trial's id, fetch the engine trial.\<close>

definition tell_try ::
  "('m, 'e, 't) Engine \<Rightarrow> Trial \<Rightarrow> 't tell_locals \<times> ('m, 'e) AxClient
     \<Rightarrow> py_error option \<times> 't tell_locals \<times> ('m, 'e) AxClient" where
  "tell_try eng trial lc =
     (case lc of (l, c) \<Rightarrow>
        (case ax_trial_id trial of
           NoAttribute \<Rightarrow> (Some (AttributeError, ''ax_trial_id''), l, c)
         | Attribute tid \<Rightarrow>
             (case get_trial eng tid c of
                (Inl e, c1) \<Rightarrow> (Some e, l\<lparr>trial_id := Some tid\<rparr>, c1)
              | (Inr t, c1) \<Rightarrow> (None, l\<lparr>trial_id := Some tid, ax_trial := Some t\<rparr>, c1))))"

text \<open>The dictionary \<open>params\<close> built from the trial's names and values.\<close>

definition trial_params :: "Trial \<Rightarrow> (string \<rightharpoonup> real option)" where
  "trial_params trial =
     fold (\<lambda>(var, v) params. params(var_name var \<mapsto> v))
       (zip (trial_varying_parameters trial) (parameter_values trial)) Map.empty"

text \<open>
  The two assignments \<open>cs.num_trials -= 1\<close> and
  \<open>cs.transition_criteria[0].threshold -= 1\<close> on the current step.
\<close>

definition decrement_num_trials :: "('m, 'e) AxClient \<Rightarrow> ('m, 'e) AxClient" where
  "decrement_num_trials c =
     (let gs = generation_strategy c; cs = current_step gs in
      c\<lparr>generation_strategy :=
           gs\<lparr>steps := (steps gs)[curr gs := cs\<lparr>num_trials := num_trials cs - 1\<rparr>]\<rparr>\<rparr>)"

definition decrement_threshold ::
  "('m, 'e) AxClient \<Rightarrow> py_error + ('m, 'e) AxClient" where
  "decrement_threshold c =
     (let gs = generation_strategy c; cs = current_step gs in
      case transition_criteria cs of
        [] \<Rightarrow> Inl (IndexError, ''list index out of range'')
      | tc # tcs \<Rightarrow>
          Inr (c\<lparr>generation_strategy :=
                 gs\<lparr>steps := (steps gs)[curr gs :=
                      cs\<lparr>transition_criteria :=
                           tc\<lparr>threshold := threshold tc - 1\<rparr> # tcs\<rparr>]\<rparr>\<rparr>))"

text \<open>
  The reduction of the number of initialisation trials, under its guard
  \<open>trial.status != TrialStatus.FAILED and not self._enforce_n_init\<close>, with the two
  branches on the engine's version.
\<close>

definition reduce_n_init ::
  "('m, 'e, 't) Engine \<Rightarrow> AxServiceGenerator \<Rightarrow> Trial \<Rightarrow> ('m, 'e) AxClient
     \<Rightarrow> py_error option \<times> ('m, 'e) AxClient" where
  "reduce_n_init eng self trial c =
     (if status trial \<noteq> FAILED \<and> \<not> enforce_n_init self then
        if ax_version_ge_0_3_5 eng then
          if model (current_step (generation_strategy c)) = SOBOL then
            (case decrement_threshold (decrement_num_trials c) of
               Inl e \<Rightarrow> (Some e, decrement_num_trials c)
             | Inr c1 \<Rightarrow>
                 (case maybe_move_to_next_step eng c1 of
                    (Inl e, c2) \<Rightarrow> (Some e, c2)
                  | (Inr u, c2) \<Rightarrow> (None, c2)))
          else (None, c)
        else
          if model (current_step (generation_strategy c)) = SOBOL then
            (case maybe_move_to_next_step eng (decrement_num_trials c) of
               (Inl e, c2) \<Rightarrow> (Some e, c2)
             | (Inr u, c2) \<Rightarrow> (None, c2))
          else (None, c)
      else (None, c))"

text \<open>The \<open>except AttributeError\<close> block: attach, fetch, reduce.\<close>

definition tell_except ::
  "('m, 'e, 't) Engine \<Rightarrow> AxServiceGenerator \<Rightarrow> Trial
     \<Rightarrow> 't tell_locals \<times> ('m, 'e) AxClient
     \<Rightarrow> py_error option \<times> 't tell_locals \<times> ('m, 'e) AxClient" where
  "tell_except eng self trial lc =
     (case lc of (l, c) \<Rightarrow>
        (case attach_trial eng (trial_params trial) c of
           (Inl e, c1) \<Rightarrow> (Some e, l, c1)
         | (Inr tid, c1) \<Rightarrow>
             (case get_trial eng (Some tid) c1 of
                (Inl e, c2) \<Rightarrow> (Some e, l\<lparr>trial_id := Some (Some tid)\<rparr>, c2)
              | (Inr t, c2) \<Rightarrow>
                  (case reduce_n_init eng self trial c2 of
                     (r, c3) \<Rightarrow>
                       (r, l\<lparr>trial_id := Some (Some tid), ax_trial := Some t\<rparr>, c3)))))"

text \<open>
  The \<open>try\<close> statement without its \<open>finally\<close>: the handler runs when the
  \<open>try\<close> block raised an \<open>AttributeError\<close>; any other exception stays pending.
\<close>

definition tell_resolve ::
  "('m, 'e, 't) Engine \<Rightarrow> AxServiceGenerator \<Rightarrow> Trial
     \<Rightarrow> 't tell_locals \<times> ('m, 'e) AxClient
     \<Rightarrow> py_error option \<times> 't tell_locals \<times> ('m, 'e) AxClient" where
  "tell_resolve eng self trial lc =
     (case tell_try eng trial lc of
        (None, l1, c1) \<Rightarrow> (None, l1, c1)
      | (Some e, l1, c1) \<Rightarrow>
          if fst e = AttributeError then tell_except eng self trial (l1, c1)
          else (Some e, l1, c1))"

text \<open>
  The dictionary \<open>outcome_evals\<close>: the objective evaluations, then the parameter
  evaluations whose name is the metric of an outcome constraint.
\<close>

definition outcome_evals :: "Trial \<Rightarrow> string list \<Rightarrow> raw_data" where
  "outcome_evals trial ocs =
     (let evals = fold (\<lambda>ev m. m(ev_name ev \<mapsto> (ev_value ev, ev_sem ev)))
                    (objective_evaluations trial) Map.empty in
      if ocs \<noteq> [] then
        fold (\<lambda>ev m. if ev_name ev \<in> set ocs
                      then m(ev_name ev \<mapsto> (ev_value ev, ev_sem ev)) else m)
          (parameter_evaluations trial) evals
      else evals)"

definition unbound_local :: "string \<Rightarrow> py_error" where
  "unbound_local v = (UnboundLocalError, v)"

definition raised :: "(py_error + unit) \<times> 'c \<Rightarrow> py_error option \<times> 'c" where
  "raised rc = (case rc of (Inl e, c) \<Rightarrow> (Some e, c) | (Inr u, c) \<Rightarrow> (None, c))"

text \<open>The \<open>finally\<close> block: complete the engine trial, or mark it.\<close>

definition tell_finally ::
  "('m, 'e, 't) Engine \<Rightarrow> AxServiceGenerator \<Rightarrow> Trial
     \<Rightarrow> 't tell_locals \<times> ('m, 'e) AxClient \<Rightarrow> py_error option \<times> ('m, 'e) AxClient" where
  "tell_finally eng self trial lc =
     (case lc of (l, c) \<Rightarrow>
        if completed trial then
          (case trial_id l of
             None \<Rightarrow> (Some (unbound_local ''trial_id''), c)
           | Some tid \<Rightarrow>
               raised (complete_trial eng tid (outcome_evals trial (outcome_constraints c)) c))
        else if failed trial then
          (case ax_trial l of
             None \<Rightarrow> (Some (unbound_local ''ax_trial''), c)
           | Some t \<Rightarrow>
               if abandon_failed_trials self then raised (mark_abandoned eng t c)
               else raised (mark_failed eng t c))
        else (None, c))"

text \<open>
  One iteration of the loop of \<open>_tell\<close>. The \<open>finally\<close> block runs whatever the
  \<open>try\<close> statement did; an exception it raises replaces a pending one, otherwise
  the pending one is raised again.
\<close>

definition tell_trial ::
  "('m, 'e, 't) Engine \<Rightarrow> AxServiceGenerator \<Rightarrow> Trial
     \<Rightarrow> 't tell_locals \<times> ('m, 'e) AxClient
     \<Rightarrow> py_error option \<times> 't tell_locals \<times> ('m, 'e) AxClient" where
  "tell_trial eng self trial lc =
     (case tell_resolve eng self trial lc of
        (r, l1, c1) \<Rightarrow>
          (case tell_finally eng self trial (l1, c1) of
             (Some e, c2) \<Rightarrow> (Some e, l1, c2)
           | (None, c2) \<Rightarrow> (r, l1, c2)))"

fun tell_loop ::
  "('m, 'e, 't) Engine \<Rightarrow> AxServiceGenerator \<Rightarrow> Trial list
     \<Rightarrow> 't tell_locals \<times> ('m, 'e) AxClient
     \<Rightarrow> py_error option \<times> 't tell_locals \<times> ('m, 'e) AxClient" where
  "tell_loop eng self [] lc = (None, lc)"
| "tell_loop eng self (trial # trials) lc =
     (case tell_trial eng self trial lc of
        (Some e, l1, c1) \<Rightarrow> (Some e, l1, c1)
      | (None, l1, c1) \<Rightarrow> tell_loop eng self trials (l1, c1))"

text \<open>\<open>_tell\<close>: the loop, started with both local variables unbound.\<close>

definition tell ::
  "('m, 'e, 't) Engine \<Rightarrow> AxServiceGenerator \<Rightarrow> Trial list \<Rightarrow> ('m, 'e) AxClient
     \<Rightarrow> py_error option \<times> ('m, 'e) AxClient" where
  "tell eng self trials c =
     (case tell_loop eng self trials (\<lparr>trial_id = None, ax_trial = None\<rparr>, c) of
        (r, l, c1) \<Rightarrow> (r, c1))"


section \<open>Best values\<close>

text \<open>
  \<open>np.argmin\<close> and \<open>np.argmax\<close> on a list of numbers: one scan that keeps the
  index of the first extremal value; an empty sequence raises \<open>ValueError\<close>.
\<close>

fun argmin_scan :: "real list \<Rightarrow> nat \<Rightarrow> nat \<Rightarrow> real \<Rightarrow> nat" where
  "argmin_scan [] i best_i best = best_i"
| "argmin_scan (x # xs) i best_i best =
     (if x < best then argmin_scan xs (Suc i) i x else argmin_scan xs (Suc i) best_i best)"

fun argmax_scan :: "real list \<Rightarrow> nat \<Rightarrow> nat \<Rightarrow> real \<Rightarrow> nat" where
  "argmax_scan [] i best_i best = best_i"
| "argmax_scan (x # xs) i best_i best =
     (if best < x then argmax_scan xs (Suc i) i x else argmax_scan xs (Suc i) best_i best)"

definition argmin :: "real list \<Rightarrow> py_error + nat" where
  "argmin xs =
     (case xs of
        [] \<Rightarrow> Inl (ValueError, ''attempt to get argmin of an empty sequence'')
      | x # xs' \<Rightarrow> Inr (argmin_scan xs' 1 0 x))"

definition argmax :: "real list \<Rightarrow> py_error + nat" where
  "argmax xs =
     (case xs of
        [] \<Rightarrow> Inl (ValueError, ''attempt to get argmax of an empty sequence'')
      | x # xs' \<Rightarrow> Inr (argmax_scan xs' 1 0 x))"

text \<open>\<open>objective_names.index(objective)\<close>: the first position of the name.\<close>

fun index :: "'a list \<Rightarrow> 'a \<Rightarrow> nat" where
  "index [] a = 0"
| "index (x # xs) a = (if x = a then 0 else Suc (index xs a))"

text \<open>
  The comprehension \<open>[objs[objective.name] for ... in pp.items()]\<close>: a frontier point
  without the objective raises \<open>KeyError\<close>.
\<close>

fun obj_vals :: "string \<Rightarrow> pareto_entry list \<Rightarrow> py_error + real list" where
  "obj_vals n [] = Inr []"
| "obj_vals n ((i, (vals, (objs, covs))) # pp) =
     (case objs n of
        None \<Rightarrow> Inl (KeyError, n)
      | Some v \<Rightarrow> (case obj_vals n pp of Inl e \<Rightarrow> Inl e | Inr vs \<Rightarrow> Inr (v # vs)))"

definition param_vals :: "pareto_entry list \<Rightarrow> parameterization list" where
  "param_vals pp = map (\<lambda>(i, (vals, (objs, covs))). vals) pp"

definition objective_not_found :: "string \<Rightarrow> string list \<Rightarrow> py_error" where
  "objective_not_found objective objective_names =
     (ValueError,
      ''Objective '' @ objective @ '' not found. Available objectives are ''
        @ concat (map (\<lambda>n. n @ '' '') objective_names))"

text \<open>
  \<open>_get_best_values\<close>. The message of the \<open>ValueError\<close> lists the names; its
  exact layout (Python's \<open>repr\<close> of a list) is not modelled.
\<close>

definition get_best_values ::
  "('m, 'e, 't) Engine \<Rightarrow> AxServiceGenerator \<Rightarrow> string \<Rightarrow> ('m, 'e) AxClient
     \<Rightarrow> (py_error + parameterization option) \<times> ('m, 'e) AxClient" where
  "get_best_values eng self objective_name c =
     (let objective_names = map obj_name (objectives self) in
      if objective_name \<in> set objective_names then
        let objective = objectives self ! index objective_names objective_name in
        if length (objectives self) > 1 then
          (case get_pareto_optimal_parameters eng c of
             (Inl e, c1) \<Rightarrow> (Inl e, c1)
           | (Inr pp, c1) \<Rightarrow>
               (case obj_vals (obj_name objective) pp of
                  Inl e \<Rightarrow> (Inl e, c1)
                | Inr vs \<Rightarrow>
                    (case (if minimize objective then argmin vs else argmax vs) of
                       Inl e \<Rightarrow> (Inl e, c1)
                     | Inr best_obj_i \<Rightarrow> (Inr (Some (param_vals pp ! best_obj_i)), c1))))
        else
          (case get_best_parameters eng c of
             (Inl e, c1) \<Rightarrow> (Inl e, c1)
           | (Inr None, c1) \<Rightarrow> (Inr None, c1)
           | (Inr (Some (slice_values, predictions)), c1) \<Rightarrow> (Inr (Some slice_values), c1))
      else (Inl (objective_not_found objective_name objective_names), c))"

section \<open>Sending a generator to another process and merging it back\<close>

text \<open>
  \<open>_prepare_to_send\<close>: when the strategy holds a model, clear the fitted model of the
  current step's model spec and the strategy's own reference to it.
\<close>

definition prepare_to_send :: "('m, 'e) AxClient \<Rightarrow> ('m, 'e) AxClient" where
  "prepare_to_send c =
     (let generation_strategy = generation_strategy c in
      if gs_model generation_strategy \<noteq> None then
        c\<lparr>generation_strategy :=
             generation_strategy
               \<lparr>steps := (steps generation_strategy)[curr generation_strategy :=
                    (current_step generation_strategy)\<lparr>fitted_model := None\<rparr>],
                gs_model := None\<rparr>\<rparr>
      else c)"

text \<open>
  Modelled from the spec: \<open>update_object\<close> of \<open>optimas.utils.other\<close> and the
  \<open>_update\<close> of the base class \<open>Generator\<close> are not among the sources. The merge
  is a field-wise copy-assignment from the incoming snapshot onto the retained instance:
  every attribute of the old object takes the value it has in the new one. The base
  \<open>_update\<close> does this for the generator itself.
\<close>

definition update_object :: "'a \<Rightarrow> 'a \<Rightarrow> 'a" where
  "update_object object_old object_new = object_new"

definition generator_update ::
  "AxServiceGenerator \<Rightarrow> AxServiceGenerator \<Rightarrow> AxServiceGenerator" where
  "generator_update self new_generator = update_object self new_generator"

text \<open>
  \<open>_update\<close>, over a store of client objects: the generator holds the address of its
  client, and so does the newer generator. The assignments of \<open>update_object\<close> write
  to the object at the original address.
\<close>

type_synonym ('m, 'e) store = "nat \<rightharpoonup> ('m, 'e) AxClient"

definition update ::
  "AxServiceGenerator \<Rightarrow> AxServiceGenerator \<Rightarrow> ('m, 'e) store
     \<Rightarrow> AxServiceGenerator \<times> ('m, 'e) store" where
  "update self new_generator store =
     (let original_ax_client = ax_client self;
          self1 = generator_update self new_generator;
          store1 = (case (store original_ax_client, store (ax_client new_generator)) of
                      (Some object_old, Some object_new) \<Rightarrow>
                        store(original_ax_client \<mapsto> update_object object_old object_new)
                    | _ \<Rightarrow> store)
      in (self1\<lparr>ax_client := original_ax_client\<rparr>, store1))"


section \<open>A small engine for concrete runs\<close>

text \<open>
  Every theorem below holds for any engine. To run the bridge on concrete inputs, this
  is a minimal engine in the shape of the client's interface: the experiment is the list
  of its trials, each an index and a status; a trial object is its index. New trials get
  the next index. Fetching, completing or marking a trial that does not exist raises, as
  a dictionary lookup of an unknown index would. The strategy moves to the next step
  once the experiment holds as many trials as the current step asks for.
\<close>

datatype AxTrialStatus = Running | Completed | Abandoned | Failed

type_synonym test_experiment = "(int \<times> AxTrialStatus) list"
type_synonym test_client = "(nat, test_experiment) AxClient"

definition test_new_trial :: "test_client \<Rightarrow> int \<times> test_client" where
  "test_new_trial c =
     (int (length (ax_experiment c)),
      c\<lparr>ax_experiment := ax_experiment c @ [(int (length (ax_experiment c)), Running)]\<rparr>)"

definition test_get_trial :: "int option \<Rightarrow> test_client \<Rightarrow> (py_error + int) \<times> test_client" where
  "test_get_trial tid c =
     (case tid of
        None \<Rightarrow> (Inl (KeyError, ''None''), c)
      | Some i \<Rightarrow>
          if i \<in> set (map fst (ax_experiment c)) then (Inr i, c)
          else (Inl (KeyError, ''trial''), c))"

definition test_set_status ::
  "AxTrialStatus \<Rightarrow> int \<Rightarrow> test_client \<Rightarrow> (py_error + unit) \<times> test_client" where
  "test_set_status st i c =
     (if i \<in> set (map fst (ax_experiment c)) then
        (Inr (), c\<lparr>ax_experiment :=
                     map (\<lambda>(j, s). if j = i then (j, st) else (j, s)) (ax_experiment c)\<rparr>)
      else (Inl (ValueError, ''trial''), c))"

definition test_maybe_move :: "test_client \<Rightarrow> (py_error + unit) \<times> test_client" where
  "test_maybe_move c =
     (let gs = generation_strategy c in
      if Suc (curr gs) < length (steps gs)
         \<and> num_trials (current_step gs) \<le> int (length (ax_experiment c))
      then (Inr (), c\<lparr>generation_strategy := gs\<lparr>curr := Suc (curr gs)\<rparr>\<rparr>)
      else (Inr (), c))"

definition test_engine ::
  "bool \<Rightarrow> bool \<Rightarrow> parameterization \<Rightarrow> pareto_entry list \<Rightarrow> best_parameters option
     \<Rightarrow> (nat, test_experiment, int) Engine" where
  "test_engine new_version with_fixed_features point pp best =
     \<lparr>ax_version_ge_0_3_5 = new_version,
      get_next_trial =
        (\<lambda>args c.
           case args of
             NoArguments \<Rightarrow>
               (case test_new_trial c of (i, c1) \<Rightarrow> (Inr (point, i), c1))
           | FixedFeatures ff \<Rightarrow>
               if with_fixed_features
               then (case test_new_trial c of (i, c1) \<Rightarrow> (Inr (point, i), c1))
               else (Inl (TypeError, ''fixed_features''), c)),
      get_trial = test_get_trial,
      attach_trial = (\<lambda>params c. case test_new_trial c of (i, c1) \<Rightarrow> (Inr i, c1)),
      maybe_move_to_next_step = test_maybe_move,
      complete_trial =
        (\<lambda>tid data c.
           case tid of
             None \<Rightarrow> (Inl (ValueError, ''None''), c)
           | Some i \<Rightarrow> test_set_status Completed i c),
      mark_abandoned = test_set_status Abandoned,
      mark_failed = test_set_status Failed,
      get_pareto_optimal_parameters = (\<lambda>c. (Inr pp, c)),
      get_best_parameters = (\<lambda>c. (Inr best, c))\<rparr>"

text \<open>
  A client with a Sobol step of four trials followed by a model-based step, and no
  trials yet; a generator with two varying parameters and one objective.
\<close>

definition test_client0 :: test_client where
  "test_client0 =
     \<lparr>generation_strategy =
        \<lparr>steps = [\<lparr>model = SOBOL, num_trials = 4,
                    transition_criteria = [\<lparr>threshold = 4\<rparr>], fitted_model = None\<rparr>,
                  \<lparr>model = GPEI, num_trials = -1,
                    transition_criteria = [], fitted_model = Some 1\<rparr>],
         curr = 0, gs_model = None\<rparr>,
      outcome_constraints = [''m1''],
      ax_experiment = []\<rparr>"

definition test_var :: "string \<Rightarrow> char \<Rightarrow> bool \<Rightarrow> VaryingParameter" where
  "test_var n k fixed =
     \<lparr>var_name = n, dtype_kind = k, lower_bound = 0, upper_bound = 1, is_fidelity = False,
      fidelity_target_value = None, is_fixed = fixed, default_value = Some (1 / 2)\<rparr>"

definition test_generator :: "bool \<Rightarrow> Objective list \<Rightarrow> AxServiceGenerator" where
  "test_generator enforce objs =
     \<lparr>varying_parameters = [test_var ''x0'' (CHR ''f'') False, test_var ''x1'' (CHR ''i'') True],
      objectives = objs,
      enforce_n_init = enforce,
      abandon_failed_trials = True,
      fixed_features = None,
      ax_client = 0\<rparr>"

definition test_trial :: "int option attribute \<Rightarrow> TrialStatus \<Rightarrow> Trial" where
  "test_trial tid st =
     \<lparr>trial_varying_parameters =
        [test_var ''x0'' (CHR ''f'') False, test_var ''x1'' (CHR ''i'') True],
      parameter_values = [Some (1 / 4), Some 1],
      ax_trial_id = tid,
      status = st,
      objective_evaluations = [\<lparr>ev_name = ''f'', ev_value = 3, ev_sem = None\<rparr>],
      parameter_evaluations = [\<lparr>ev_name = ''m1'', ev_value = 2, ev_sem = None\<rparr>,
                               \<lparr>ev_name = ''m2'', ev_value = 5, ev_sem = None\<rparr>]\<rparr>"

text \<open>
  A Pareto front of three points for two objectives \<open>f\<close> (minimised) and \<open>g\<close>
  (maximised), with a tie between the second and the third point, and a client whose
  strategy is at its second step with a fitted model.
\<close>

definition test_front :: "pareto_entry list" where
  "test_front =
     [(0, ([''x0'' \<mapsto> 1], ([''f'' \<mapsto> 2, ''g'' \<mapsto> 5], Map.empty))),
      (1, ([''x0'' \<mapsto> 2], ([''f'' \<mapsto> 1, ''g'' \<mapsto> 7], Map.empty))),
      (2, ([''x0'' \<mapsto> 3], ([''f'' \<mapsto> 1, ''g'' \<mapsto> 7], Map.empty)))]"

definition test_objectives :: "Objective list" where
  "test_objectives = [\<lparr>obj_name = ''f'', minimize = True\<rparr>, \<lparr>obj_name = ''g'', minimize = False\<rparr>]"

definition test_client_fitted :: test_client where
  "test_client_fitted =
     test_client0\<lparr>generation_strategy :=
       (generation_strategy test_client0)\<lparr>curr := 1, gs_model := Some 1\<rparr>\<rparr>"

section \<open>The search-space translator: properties\<close>

lemma fixed_fold_other:
  "n \<notin> var_name ` set vps \<Longrightarrow>
   fold (\<lambda>var fixed. if is_fixed var then fixed(var_name var \<mapsto> default_value var) else fixed)
     vps fx n = fx n"
  by (induction vps arbitrary: fx) auto

lemma fixed_fold_dom:
  "dom (fold (\<lambda>var fixed. if is_fixed var then fixed(var_name var \<mapsto> default_value var) else fixed)
     vps fx) = dom fx \<union> var_name ` {v \<in> set vps. is_fixed v}"
  by (induction vps arbitrary: fx) auto

lemma fixed_fold_value:
  "distinct (map var_name vps) \<Longrightarrow> v \<in> set vps \<Longrightarrow> is_fixed v \<Longrightarrow>
   fold (\<lambda>var fixed. if is_fixed var then fixed(var_name var \<mapsto> default_value var) else fixed)
     vps fx (var_name v) = Some (default_value v)"
proof (induction vps arbitrary: fx)
  case Nil
  then show ?case by simp
next
  case (Cons a vps)
  show ?case
  proof (cases "v = a")
    case True
    with Cons.prems have "var_name a \<notin> var_name ` set vps" by auto
    from fixed_fold_other [OF this] True Cons.prems show ?thesis by simp
  next
    case False
    with Cons.prems have "v \<in> set vps" "distinct (map var_name vps)" by auto
    from Cons.IH [OF this(2) this(1) Cons.prems(3)] show ?thesis by simp
  qed
qed

lemma create_loop_ok:
  "\<forall>v \<in> set vps. dtype_kind v = CHR ''f'' \<or> dtype_kind v = CHR ''i'' \<Longrightarrow>
   create_ax_parameters_loop vps ps fx =
     Inr (ps @ map (\<lambda>var. \<lparr>p_name = var_name var, p_type = ''range'',
               p_bounds = [lower_bound var, upper_bound var],
               p_is_fidelity = is_fidelity var,
               p_target_value = fidelity_target_value var,
               p_value_type = (if dtype_kind var = CHR ''f'' then ''float'' else ''int'')\<rparr>) vps,
          fold (\<lambda>var fixed. if is_fixed var then fixed(var_name var \<mapsto> default_value var) else fixed)
            vps fx)"
  by (induction vps arbitrary: ps fx) auto

lemma create_loop_bad:
  "\<exists>v \<in> set vps. \<not> (dtype_kind v = CHR ''f'' \<or> dtype_kind v = CHR ''i'') \<Longrightarrow>
   create_ax_parameters_loop vps ps fx = Inl (ValueError, dtype_message)"
  by (induction vps arbitrary: ps fx) auto

text \<open>
  C7 (as amended). For every list of varying parameters whose dtype kinds are all
  floating point (\<open>f\<close>) or signed integer (\<open>i\<close>), the translator returns one range
  spec per parameter, in order, with the parameter's name, bounds
  \<open>[lower_bound, upper_bound]\<close>, fidelity flag, fidelity target and value type, and
  stores as fixed features exactly the names of the parameters flagged fixed, each (names
  being distinct) with its default value. When some parameter has another dtype kind the
  call raises \<open>ValueError\<close> and leaves the generator as it was.
\<close>

theorem create_ax_parameters_range_specs:
  "((\<forall>v \<in> set (varying_parameters self). dtype_kind v = CHR ''f'' \<or> dtype_kind v = CHR ''i'') \<longrightarrow>
      (\<exists>ps fx. create_ax_parameters self = (Inr ps, self\<lparr>fixed_features := Some fx\<rparr>)
         \<and> length ps = length (varying_parameters self)
         \<and> (\<forall>i < length (varying_parameters self).
               p_name (ps ! i) = var_name (varying_parameters self ! i)
             \<and> p_type (ps ! i) = ''range''
             \<and> p_bounds (ps ! i) = [lower_bound (varying_parameters self ! i),
                                    upper_bound (varying_parameters self ! i)]
             \<and> p_is_fidelity (ps ! i) = is_fidelity (varying_parameters self ! i)
             \<and> p_target_value (ps ! i) = fidelity_target_value (varying_parameters self ! i)
             \<and> p_value_type (ps ! i) =
                 (if dtype_kind (varying_parameters self ! i) = CHR ''f'' then ''float''
                  else ''int''))
         \<and> dom fx = var_name ` {v \<in> set (varying_parameters self). is_fixed v}
         \<and> (distinct (map var_name (varying_parameters self)) \<longrightarrow>
              (\<forall>v \<in> set (varying_parameters self). is_fixed v \<longrightarrow>
                 fx (var_name v) = Some (default_value v)))))
   \<and> ((\<exists>v \<in> set (varying_parameters self).
          \<not> (dtype_kind v = CHR ''f'' \<or> dtype_kind v = CHR ''i'')) \<longrightarrow>
        (\<exists>msg. create_ax_parameters self = (Inl (ValueError, msg), self)))"
proof (intro conjI impI)
  assume ok: "\<forall>v \<in> set (varying_parameters self). dtype_kind v = CHR ''f'' \<or> dtype_kind v = CHR ''i''"
  let ?fx = "fold (\<lambda>var fixed. if is_fixed var then fixed(var_name var \<mapsto> default_value var) else fixed)
            (varying_parameters self) Map.empty"
  let ?ps = "map (\<lambda>var. \<lparr>p_name = var_name var, p_type = ''range'',
               p_bounds = [lower_bound var, upper_bound var],
               p_is_fidelity = is_fidelity var,
               p_target_value = fidelity_target_value var,
               p_value_type = (if dtype_kind var = CHR ''f'' then ''float'' else ''int'')\<rparr>)
            (varying_parameters self)"
  have run: "create_ax_parameters self = (Inr ?ps, self\<lparr>fixed_features := Some ?fx\<rparr>)"
    using create_loop_ok [OF ok, of "[]" Map.empty] by (simp add: create_ax_parameters_def)
  have d: "dom ?fx = var_name ` {v \<in> set (varying_parameters self). is_fixed v}"
    by (simp add: fixed_fold_dom)
  have v: "distinct (map var_name (varying_parameters self)) \<longrightarrow>
              (\<forall>v \<in> set (varying_parameters self). is_fixed v \<longrightarrow>
                 ?fx (var_name v) = Some (default_value v))"
    using fixed_fold_value by blast
  show "\<exists>ps fx. create_ax_parameters self = (Inr ps, self\<lparr>fixed_features := Some fx\<rparr>)
         \<and> length ps = length (varying_parameters self)
         \<and> (\<forall>i < length (varying_parameters self).
               p_name (ps ! i) = var_name (varying_parameters self ! i)
             \<and> p_type (ps ! i) = ''range''
             \<and> p_bounds (ps ! i) = [lower_bound (varying_parameters self ! i),
                                    upper_bound (varying_parameters self ! i)]
             \<and> p_is_fidelity (ps ! i) = is_fidelity (varying_parameters self ! i)
             \<and> p_target_value (ps ! i) = fidelity_target_value (varying_parameters self ! i)
             \<and> p_value_type (ps ! i) =
                 (if dtype_kind (varying_parameters self ! i) = CHR ''f'' then ''float''
                  else ''int''))
         \<and> dom fx = var_name ` {v \<in> set (varying_parameters self). is_fixed v}
         \<and> (distinct (map var_name (varying_parameters self)) \<longrightarrow>
              (\<forall>v \<in> set (varying_parameters self). is_fixed v \<longrightarrow>
                 fx (var_name v) = Some (default_value v)))"
    apply (rule exI [of _ ?ps], rule exI [of _ ?fx])
    using run d v by simp
next
  assume "\<exists>v \<in> set (varying_parameters self).
          \<not> (dtype_kind v = CHR ''f'' \<or> dtype_kind v = CHR ''i'')"
  from create_loop_bad [OF this, of "[]" Map.empty]
  show "\<exists>msg. create_ax_parameters self = (Inl (ValueError, msg), self)"
    by (simp add: create_ax_parameters_def)
qed

theorem create_ax_parameters_range_specs_witness:
  "list_all (\<lambda>v. dtype_kind v = CHR ''f'' \<or> dtype_kind v = CHR ''i'')
     (varying_parameters (test_generator False []))
   \<and> (\<exists>ps fx. create_ax_parameters (test_generator False [])
                 = (Inr ps, (test_generator False [])\<lparr>fixed_features := Some fx\<rparr>)
        \<and> length ps = 2 \<and> dom fx = {''x1''})
   \<and> (\<exists>v \<in> set [test_var ''x0'' (CHR ''b'') False].
         \<not> (dtype_kind v = CHR ''f'' \<or> dtype_kind v = CHR ''i''))
   \<and> (\<exists>msg. create_ax_parameters
               ((test_generator False [])\<lparr>varying_parameters := [test_var ''x0'' (CHR ''b'') False]\<rparr>)
             = (Inl (ValueError, msg),
                (test_generator False [])\<lparr>varying_parameters := [test_var ''x0'' (CHR ''b'') False]\<rparr>))"
proof -
  have ok: "\<forall>v \<in> set (varying_parameters (test_generator False [])).
      dtype_kind v = CHR ''f'' \<or> dtype_kind v = CHR ''i''"
    by (simp add: test_generator_def test_var_def)
  have "{v \<in> set (varying_parameters (test_generator False [])). is_fixed v}
          = {test_var ''x1'' (CHR ''i'') True}"
    by (auto simp: test_generator_def test_var_def)
  then have names:
    "var_name ` {v \<in> set (varying_parameters (test_generator False [])). is_fixed v} = {''x1''}"
    by (simp add: test_var_def)
  have len: "length (varying_parameters (test_generator False [])) = 2"
    by (simp add: test_generator_def)
  have bad: "\<exists>v \<in> set (varying_parameters
                 ((test_generator False [])\<lparr>varying_parameters := [test_var ''x0'' (CHR ''b'') False]\<rparr>)).
         \<not> (dtype_kind v = CHR ''f'' \<or> dtype_kind v = CHR ''i'')"
    by (simp add: test_var_def)
  from create_ax_parameters_range_specs [of "test_generator False []"] ok names len
  have first: "\<exists>ps fx. create_ax_parameters (test_generator False [])
                 = (Inr ps, (test_generator False [])\<lparr>fixed_features := Some fx\<rparr>)
        \<and> length ps = 2 \<and> dom fx = {''x1''}"
    by auto
  from create_ax_parameters_range_specs
         [of "(test_generator False [])\<lparr>varying_parameters := [test_var ''x0'' (CHR ''b'') False]\<rparr>"]
       bad
  have second: "\<exists>msg. create_ax_parameters
               ((test_generator False [])\<lparr>varying_parameters := [test_var ''x0'' (CHR ''b'') False]\<rparr>)
             = (Inl (ValueError, msg),
                (test_generator False [])\<lparr>varying_parameters := [test_var ''x0'' (CHR ''b'') False]\<rparr>)"
    by blast
  from ok first bad second show ?thesis by (simp add: list_all_iff)
qed

text \<open>
  C7 as stated fails: the error raised for a parameter \<open>x0\<close> of boolean dtype is the
  fixed text of the source, which does not contain the parameter's name.
\<close>

theorem create_ax_parameters_error_names_no_parameter:
  "create_ax_parameters
     ((test_generator False [])\<lparr>varying_parameters := [test_var ''x0'' (CHR ''b'') False]\<rparr>)
   = (Inl (ValueError, dtype_message),
      (test_generator False [])\<lparr>varying_parameters := [test_var ''x0'' (CHR ''b'') False]\<rparr>)
   \<and> \<not> sublist ''x0'' dtype_message"
  by (simp add: create_ax_parameters_def test_generator_def test_var_def dtype_message_def sublist_code)

section \<open>Ask: properties\<close>

lemma ask_trial_cases:
  "(\<exists>e c1. request_next_trial eng self c = (Inl e, c1) \<and> ask_trial eng self trial c = (Inl e, c1))
   \<or> (\<exists>parameters tid c1. request_next_trial eng self c = (Inr (parameters, tid), c1)
        \<and> ask_trial eng self trial c =
           (Inr (trial\<lparr>parameter_values :=
                   map (\<lambda>var. parameters (var_name var)) (varying_parameters self),
                 ax_trial_id := Attribute (Some tid)\<rparr>), c1))"
  by (auto simp: ask_trial_def split: prod.splits sum.splits)

lemma request_next_trial_Inr:
  "request_next_trial eng self c = (Inr (p, tid), c') \<longleftrightarrow>
     get_next_trial eng (FixedFeatures (fixed_features self)) c = (Inr (p, tid), c')
   \<or> (\<exists>e c1. get_next_trial eng (FixedFeatures (fixed_features self)) c = (Inl e, c1)
          \<and> fst e = TypeError
          \<and> get_next_trial eng NoArguments c1 = (Inr (p, tid), c'))"
  by (auto simp: request_next_trial_def split: prod.splits sum.splits if_splits)

lemma request_next_trial_Inl:
  "request_next_trial eng self c = (Inl e, c') \<longleftrightarrow>
     (get_next_trial eng (FixedFeatures (fixed_features self)) c = (Inl e, c')
        \<and> fst e \<noteq> TypeError)
   \<or> (\<exists>e1 c1. get_next_trial eng (FixedFeatures (fixed_features self)) c = (Inl e1, c1)
          \<and> fst e1 = TypeError
          \<and> get_next_trial eng NoArguments c1 = (Inl e, c'))"
  by (auto simp: request_next_trial_def split: prod.splits sum.splits if_splits)

lemma ask_run:
  "ask eng self trials c = (r, trials', c') \<Longrightarrow>
   \<exists>k cs ps ids. k \<le> length trials \<and> length cs = Suc k \<and> length ps = k \<and> length ids = k
     \<and> cs ! 0 = c
     \<and> (\<forall>i < k.
           request_next_trial eng self (cs ! i) = (Inr (ps ! i, ids ! i), cs ! Suc i)
         \<and> trials' ! i =
             (trials ! i)\<lparr>parameter_values :=
                             map (\<lambda>var. (ps ! i) (var_name var)) (varying_parameters self),
                           ax_trial_id := Attribute (Some (ids ! i))\<rparr>)
     \<and> length trials' = length trials
     \<and> drop k trials' = drop k trials
     \<and> (r = None \<longrightarrow> k = length trials \<and> c' = cs ! k)
     \<and> (\<forall>e. r = Some e \<longrightarrow>
           k < length trials \<and> request_next_trial eng self (cs ! k) = (Inl e, c'))"
proof (induction trials arbitrary: c r trials' c')
  case Nil
  then show ?case
    by (intro exI [of _ 0] exI [of _ "[c]"] exI [of _ "[]"]) simp
next
  case (Cons trial trials)
  from ask_trial_cases [of eng self c trial] show ?case
  proof (elim disjE exE conjE)
    fix e c1
    assume req: "request_next_trial eng self c = (Inl e, c1)"
      and step: "ask_trial eng self trial c = (Inl e, c1)"
    with Cons.prems have "r = Some e" "trials' = trial # trials" "c' = c1" by auto
    with req show ?thesis
      by (intro exI [of _ 0] exI [of _ "[c]"] exI [of _ "[]"]) simp
  next
    fix parameters tid c1
    assume req: "request_next_trial eng self c = (Inr (parameters, tid), c1)"
      and step: "ask_trial eng self trial c =
           (Inr (trial\<lparr>parameter_values :=
                   map (\<lambda>var. parameters (var_name var)) (varying_parameters self),
                 ax_trial_id := Attribute (Some tid)\<rparr>), c1)"
    obtain r2 ts2 c2 where rest: "ask eng self trials c1 = (r2, ts2, c2)"
      by (cases "ask eng self trials c1") auto
    with step Cons.prems have res: "r = r2" "c' = c2"
      "trials' = trial\<lparr>parameter_values :=
                   map (\<lambda>var. parameters (var_name var)) (varying_parameters self),
                 ax_trial_id := Attribute (Some tid)\<rparr> # ts2"
      by auto
    from Cons.IH [OF rest] obtain k cs ps ids where k: "k \<le> length trials"
      and lens: "length cs = Suc k" "length ps = k" "length ids = k"
      and start: "cs ! 0 = c1"
      and run: "\<forall>i < k.
           request_next_trial eng self (cs ! i) = (Inr (ps ! i, ids ! i), cs ! Suc i)
         \<and> ts2 ! i =
             (trials ! i)\<lparr>parameter_values :=
                             map (\<lambda>var. (ps ! i) (var_name var)) (varying_parameters self),
                           ax_trial_id := Attribute (Some (ids ! i))\<rparr>"
      and len: "length ts2 = length trials"
      and rest_same: "drop k ts2 = drop k trials"
      and ok: "r2 = None \<longrightarrow> k = length trials \<and> c2 = cs ! k"
      and bad: "\<forall>e. r2 = Some e \<longrightarrow>
           k < length trials \<and> request_next_trial eng self (cs ! k) = (Inl e, c2)"
      by blast
    have all: "\<forall>i < Suc k.
           request_next_trial eng self ((c # cs) ! i)
             = (Inr ((parameters # ps) ! i, (tid # ids) ! i), (c # cs) ! Suc i)
         \<and> trials' ! i =
             ((trial # trials) ! i)\<lparr>parameter_values :=
                 map (\<lambda>var. ((parameters # ps) ! i) (var_name var)) (varying_parameters self),
               ax_trial_id := Attribute (Some ((tid # ids) ! i))\<rparr>"
    proof (intro allI impI)
      fix i assume i: "i < Suc k"
      show "request_next_trial eng self ((c # cs) ! i)
             = (Inr ((parameters # ps) ! i, (tid # ids) ! i), (c # cs) ! Suc i)
         \<and> trials' ! i =
             ((trial # trials) ! i)\<lparr>parameter_values :=
                 map (\<lambda>var. ((parameters # ps) ! i) (var_name var)) (varying_parameters self),
               ax_trial_id := Attribute (Some ((tid # ids) ! i))\<rparr>"
      proof (cases i)
        case 0
        with req res start show ?thesis by simp
      next
        case (Suc j)
        with i have "j < k" by simp
        with run Suc res show ?thesis by simp
      qed
    qed
    show ?thesis
      apply (intro exI [of _ "Suc k"] exI [of _ "c # cs"] exI [of _ "parameters # ps"]
          exI [of _ "tid # ids"])
      using k lens len rest_same ok bad res all by simp
  qed
qed

text \<open>
  C4. \<open>_ask\<close> leaves as many trials as it was given and threads the client through
  the engine's calls: there are client states \<open>cs\<close>, starting at the client passed
  in, and for each of the first \<open>k\<close> trials the engine's request on \<open>cs ! i\<close> (with
  the fixed features, or without them after a \<open>TypeError\<close>) returned a map and a
  trial id and left \<open>cs ! Suc i\<close>. Each of these trials is the trial passed in with
  that id, which is not null, and a value list with one value per declared varying
  parameter, read in declaration order from that map. When the call returns normally
  \<open>k\<close> is all of the trials and the client it leaves is the last state. When it raises,
  the exception is the one the engine's request raised on \<open>cs ! k\<close>, and the failing
  trial and those after it are exactly as they were passed in.
\<close>

theorem ask_assigns_every_trial_or_aborts:
  "ask eng self trials c = (r, trials', c') \<Longrightarrow>
   \<exists>k cs ps ids. k \<le> length trials \<and> length cs = Suc k \<and> length ps = k \<and> length ids = k
     \<and> cs ! 0 = c
     \<and> (\<forall>i < k.
           (get_next_trial eng (FixedFeatures (fixed_features self)) (cs ! i)
              = (Inr (ps ! i, ids ! i), cs ! Suc i)
            \<or> (\<exists>e c1. get_next_trial eng (FixedFeatures (fixed_features self)) (cs ! i)
                          = (Inl e, c1)
                  \<and> fst e = TypeError
                  \<and> get_next_trial eng NoArguments c1 = (Inr (ps ! i, ids ! i), cs ! Suc i)))
         \<and> trials' ! i =
             (trials ! i)\<lparr>parameter_values :=
                             map (\<lambda>var. (ps ! i) (var_name var)) (varying_parameters self),
                           ax_trial_id := Attribute (Some (ids ! i))\<rparr>
         \<and> length (parameter_values (trials' ! i)) = length (varying_parameters self))
     \<and> length trials' = length trials
     \<and> drop k trials' = drop k trials
     \<and> (r = None \<longrightarrow> k = length trials \<and> c' = cs ! k)
     \<and> (\<forall>e. r = Some e \<longrightarrow>
           k < length trials
         \<and> ((get_next_trial eng (FixedFeatures (fixed_features self)) (cs ! k) = (Inl e, c')
                \<and> fst e \<noteq> TypeError)
            \<or> (\<exists>e1 c1. get_next_trial eng (FixedFeatures (fixed_features self)) (cs ! k)
                           = (Inl e1, c1)
                   \<and> fst e1 = TypeError
                   \<and> get_next_trial eng NoArguments c1 = (Inl e, c'))))"
proof -
  assume "ask eng self trials c = (r, trials', c')"
  from ask_run [OF this] obtain k cs ps ids where k: "k \<le> length trials"
      and lens: "length cs = Suc k" "length ps = k" "length ids = k"
      and start: "cs ! 0 = c"
      and run: "\<forall>i < k.
           request_next_trial eng self (cs ! i) = (Inr (ps ! i, ids ! i), cs ! Suc i)
         \<and> trials' ! i =
             (trials ! i)\<lparr>parameter_values :=
                             map (\<lambda>var. (ps ! i) (var_name var)) (varying_parameters self),
                           ax_trial_id := Attribute (Some (ids ! i))\<rparr>"
      and len: "length trials' = length trials"
      and rest_same: "drop k trials' = drop k trials"
      and ok: "r = None \<longrightarrow> k = length trials \<and> c' = cs ! k"
      and bad: "\<forall>e. r = Some e \<longrightarrow>
           k < length trials \<and> request_next_trial eng self (cs ! k) = (Inl e, c')"
    by blast
  show ?thesis
    apply (intro exI [of _ k] exI [of _ cs] exI [of _ ps] exI [of _ ids])
    using k lens start len rest_same ok
      run [unfolded request_next_trial_Inr] bad [unfolded request_next_trial_Inl]
    by simp
qed

theorem ask_assigns_every_trial_or_aborts_witness:
  "fst (ask (test_engine True True [''x0'' \<mapsto> 1 / 4, ''x1'' \<mapsto> 1] [] None)
          (test_generator False [])
          [test_trial NoAttribute PENDING, test_trial NoAttribute PENDING] test_client0) = None
   \<and> map ax_trial_id
         (fst (snd (ask (test_engine True True [''x0'' \<mapsto> 1 / 4, ''x1'' \<mapsto> 1] [] None)
                      (test_generator False [])
                      [test_trial NoAttribute PENDING, test_trial NoAttribute PENDING]
                      test_client0)))
       = [Attribute (Some 0), Attribute (Some 1)]
   \<and> (\<exists>cs ps ids. length cs = 3 \<and> cs ! 0 = test_client0
        \<and> snd (snd (ask (test_engine True True [''x0'' \<mapsto> 1 / 4, ''x1'' \<mapsto> 1] [] None)
                       (test_generator False [])
                       [test_trial NoAttribute PENDING, test_trial NoAttribute PENDING]
                       test_client0)) = cs ! 2
        \<and> fst (snd (ask (test_engine True True [''x0'' \<mapsto> 1 / 4, ''x1'' \<mapsto> 1] [] None)
                       (test_generator False [])
                       [test_trial NoAttribute PENDING, test_trial NoAttribute PENDING]
                       test_client0)) ! 1
            = (test_trial NoAttribute PENDING)
                \<lparr>parameter_values :=
                   map (\<lambda>var. (ps ! 1) (var_name var))
                     (varying_parameters (test_generator False [])),
                 ax_trial_id := Attribute (Some (ids ! 1))\<rparr>)"
proof -
  let ?E = "test_engine True True [''x0'' \<mapsto> 1 / 4, ''x1'' \<mapsto> 1] [] None"
  let ?G = "test_generator False []"
  let ?T = "[test_trial NoAttribute PENDING, test_trial NoAttribute PENDING]"
  define A where "A = ask ?E ?G ?T test_client0"
  have h: "ask ?E ?G ?T test_client0 = (fst A, fst (snd A), snd (snd A))"
    by (simp add: A_def)
  have n: "fst A = None"
    unfolding A_def
    by (simp add: ask_trial_def request_next_trial_def test_engine_def test_new_trial_def)
  have ids: "map ax_trial_id (fst (snd A)) = [Attribute (Some 0), Attribute (Some 1)]"
    unfolding A_def
    by (simp add: ask_trial_def request_next_trial_def test_engine_def test_new_trial_def
        test_client0_def)
  have "\<exists>cs ps ids. length cs = 3 \<and> cs ! 0 = test_client0 \<and> snd (snd A) = cs ! 2
        \<and> fst (snd A) ! 1
            = (test_trial NoAttribute PENDING)
                \<lparr>parameter_values :=
                   map (\<lambda>var. (ps ! 1) (var_name var)) (varying_parameters ?G),
                 ax_trial_id := Attribute (Some (ids ! 1))\<rparr>"
    using ask_assigns_every_trial_or_aborts [OF h]
  proof (elim exE conjE)
    fix k cs ps ids
    assume len: "length cs = Suc k" and start: "cs ! 0 = test_client0"
      and run: "\<forall>i < k.
           (get_next_trial ?E (FixedFeatures (fixed_features ?G)) (cs ! i)
              = (Inr (ps ! i, ids ! i), cs ! Suc i)
            \<or> (\<exists>e c1. get_next_trial ?E (FixedFeatures (fixed_features ?G)) (cs ! i)
                          = (Inl e, c1)
                  \<and> fst e = TypeError
                  \<and> get_next_trial ?E NoArguments c1 = (Inr (ps ! i, ids ! i), cs ! Suc i)))
         \<and> fst (snd A) ! i =
             (?T ! i)\<lparr>parameter_values :=
                             map (\<lambda>var. (ps ! i) (var_name var)) (varying_parameters ?G),
                           ax_trial_id := Attribute (Some (ids ! i))\<rparr>
         \<and> length (parameter_values (fst (snd A) ! i)) = length (varying_parameters ?G)"
      and ok: "fst A = None \<longrightarrow> k = length ?T \<and> snd (snd A) = cs ! k"
    from ok n have k: "k = 2" and fin: "snd (snd A) = cs ! 2"
      by (simp_all add: numeral_2_eq_2)
    have "(1::nat) < k" using k by simp
    with run have "fst (snd A) ! 1 =
             (?T ! 1)\<lparr>parameter_values :=
                             map (\<lambda>var. (ps ! 1) (var_name var)) (varying_parameters ?G),
                           ax_trial_id := Attribute (Some (ids ! 1))\<rparr>"
      by blast
    then have second: "fst (snd A) ! 1 =
             (test_trial NoAttribute PENDING)\<lparr>parameter_values :=
                             map (\<lambda>var. (ps ! 1) (var_name var)) (varying_parameters ?G),
                           ax_trial_id := Attribute (Some (ids ! 1))\<rparr>"
      by simp
    from len k have "length cs = 3" by simp
    with start fin second show ?thesis by blast
  qed
  with n ids show ?thesis unfolding A_def by blast
qed

text \<open>
  C8. When the request with the fixed features raises \<open>TypeError\<close>, the request is
  made again without them, on the client as the first call left it, and that second
  request alone decides the outcome: when it returns a point, \<open>_ask\<close> on that trial
  returns normally with the trial assigned.
\<close>

theorem ask_falls_back_on_type_error:
  "get_next_trial eng (FixedFeatures (fixed_features self)) c = (Inl e, c1) \<Longrightarrow>
   fst e = TypeError \<Longrightarrow>
   request_next_trial eng self c = get_next_trial eng NoArguments c1
   \<and> (\<forall>parameters tid c2.
         get_next_trial eng NoArguments c1 = (Inr (parameters, tid), c2) \<longrightarrow>
         ask eng self [trial] c =
           (None,
            [trial\<lparr>parameter_values :=
                     map (\<lambda>var. parameters (var_name var)) (varying_parameters self),
                   ax_trial_id := Attribute (Some tid)\<rparr>],
            c2))"
  by (simp add: request_next_trial_def ask_trial_def)

theorem ask_falls_back_on_type_error_witness:
  "get_next_trial (test_engine True False [''x0'' \<mapsto> 1 / 4] [] None)
       (FixedFeatures (fixed_features (test_generator False []))) test_client0
     = (Inl (TypeError, ''fixed_features''), test_client0)
   \<and> fst (ask (test_engine True False [''x0'' \<mapsto> 1 / 4] [] None) (test_generator False [])
            [test_trial NoAttribute PENDING] test_client0) = None"
proof -
  let ?E = "test_engine True False [''x0'' \<mapsto> 1 / 4] [] None"
  have h: "get_next_trial ?E (FixedFeatures (fixed_features (test_generator False [])))
             test_client0 = (Inl (TypeError, ''fixed_features''), test_client0)"
    by (simp add: test_engine_def)
  have t: "fst (TypeError, ''fixed_features'') = TypeError" by simp
  have n: "get_next_trial ?E NoArguments test_client0
             = (Inr ([''x0'' \<mapsto> 1 / 4], 0), snd (test_new_trial test_client0))"
    by (simp add: test_engine_def test_new_trial_def test_client0_def)
  from ask_falls_back_on_type_error [OF h t, of "test_trial NoAttribute PENDING"] n h
  show ?thesis by simp
qed

text \<open>
  C10. When the map returned by the engine has no entry for the name of a declared
  varying parameter, \<open>_ask\<close> returns normally: the trial's value list has \<open>None\<close> at
  that parameter's position, and the trial carries the engine trial id.
\<close>

theorem ask_missing_name_gives_none:
  "request_next_trial eng self c = (Inr (parameters, tid), c1) \<Longrightarrow>
   i < length (varying_parameters self) \<Longrightarrow>
   parameters (var_name (varying_parameters self ! i)) = None \<Longrightarrow>
   \<exists>trial'. ask eng self [trial] c = (None, [trial'], c1)
     \<and> length (parameter_values trial') = length (varying_parameters self)
     \<and> parameter_values trial' ! i = None
     \<and> ax_trial_id trial' = Attribute (Some tid)"
  by (simp add: ask_trial_def)

theorem ask_missing_name_gives_none_witness:
  "request_next_trial (test_engine True True [''x0'' \<mapsto> 1 / 4] [] None)
       (test_generator False []) test_client0
     = (Inr ([''x0'' \<mapsto> 1 / 4], 0), snd (test_new_trial test_client0))
   \<and> (1::nat) < length (varying_parameters (test_generator False []))
   \<and> ([''x0'' \<mapsto> 1 / 4] :: parameterization)
         (var_name (varying_parameters (test_generator False []) ! 1)) = None
   \<and> (\<exists>trial'. ask (test_engine True True [''x0'' \<mapsto> 1 / 4] [] None) (test_generator False [])
                   [test_trial NoAttribute PENDING] test_client0
                 = (None, [trial'], snd (test_new_trial test_client0))
        \<and> length (parameter_values trial') = length (varying_parameters (test_generator False []))
        \<and> parameter_values trial' ! 1 = None
        \<and> ax_trial_id trial' = Attribute (Some 0))"
proof -
  let ?E = "test_engine True True [''x0'' \<mapsto> 1 / 4] [] None"
  let ?G = "test_generator False []"
  have h: "request_next_trial ?E ?G test_client0
             = (Inr ([''x0'' \<mapsto> 1 / 4], 0), snd (test_new_trial test_client0))"
    by (simp add: request_next_trial_def test_engine_def test_new_trial_def test_client0_def)
  have i: "(1::nat) < length (varying_parameters ?G)"
    by (simp add: test_generator_def)
  have m: "[''x0'' \<mapsto> 1 / 4] (var_name (varying_parameters ?G ! 1)) = (None :: real option)"
    by (simp add: test_generator_def test_var_def)
  from ask_missing_name_gives_none [OF h i m, of "test_trial NoAttribute PENDING"] h i m
  show ?thesis by blast
qed

section \<open>Tell: properties\<close>

lemma tell_try_no_attribute:
  "ax_trial_id trial = NoAttribute \<Longrightarrow>
   tell_try eng trial (l, c) = (Some (AttributeError, ''ax_trial_id''), l, c)"
  by (simp add: tell_try_def)

lemma tell_try_fetched:
  "ax_trial_id trial = Attribute tid \<Longrightarrow> get_trial eng tid c = (Inr t, c1) \<Longrightarrow>
   tell_try eng trial (l, c) = (None, l\<lparr>trial_id := Some tid, ax_trial := Some t\<rparr>, c1)"
  by (simp add: tell_try_def)

lemma tell_try_raised:
  "ax_trial_id trial = Attribute tid \<Longrightarrow> get_trial eng tid c = (Inl e, c1) \<Longrightarrow>
   tell_try eng trial (l, c) = (Some e, l\<lparr>trial_id := Some tid\<rparr>, c1)"
  by (simp add: tell_try_def)

lemma tell_resolve_no_attribute:
  "ax_trial_id trial = NoAttribute \<Longrightarrow>
   tell_resolve eng self trial (l, c) = tell_except eng self trial (l, c)"
  by (simp add: tell_resolve_def tell_try_no_attribute)

lemma tell_except_attached:
  "attach_trial eng (trial_params trial) c = (Inr tid, c1) \<Longrightarrow>
   get_trial eng (Some tid) c1 = (Inr t, c2) \<Longrightarrow>
   tell_except eng self trial (l, c) =
     (fst (reduce_n_init eng self trial c2),
      l\<lparr>trial_id := Some (Some tid), ax_trial := Some t\<rparr>,
      snd (reduce_n_init eng self trial c2))"
  by (simp add: tell_except_def split: prod.splits)

lemma decrement_num_trials_step:
  "curr (generation_strategy c) < length (steps (generation_strategy c)) \<Longrightarrow>
   current_step (generation_strategy (decrement_num_trials c))
     = (current_step (generation_strategy c))
         \<lparr>num_trials := num_trials (current_step (generation_strategy c)) - 1\<rparr>"
  by (simp add: decrement_num_trials_def current_step_def Let_def)

lemma decrement_num_trials_frame:
  "curr (generation_strategy (decrement_num_trials c)) = curr (generation_strategy c)
   \<and> length (steps (generation_strategy (decrement_num_trials c)))
       = length (steps (generation_strategy c))
   \<and> gs_model (generation_strategy (decrement_num_trials c)) = gs_model (generation_strategy c)
   \<and> outcome_constraints (decrement_num_trials c) = outcome_constraints c
   \<and> ax_experiment (decrement_num_trials c) = ax_experiment c
   \<and> (\<forall>j. j \<noteq> curr (generation_strategy c) \<longrightarrow>
         steps (generation_strategy (decrement_num_trials c)) ! j
           = steps (generation_strategy c) ! j)"
  by (simp add: decrement_num_trials_def Let_def)

lemma decrement_threshold_step:
  "curr (generation_strategy c) < length (steps (generation_strategy c)) \<Longrightarrow>
   transition_criteria (current_step (generation_strategy c)) = tc # tcs \<Longrightarrow>
   \<exists>c1. decrement_threshold c = Inr c1
     \<and> current_step (generation_strategy c1)
         = (current_step (generation_strategy c))
             \<lparr>transition_criteria := tc\<lparr>threshold := threshold tc - 1\<rparr> # tcs\<rparr>
     \<and> curr (generation_strategy c1) = curr (generation_strategy c)
     \<and> length (steps (generation_strategy c1)) = length (steps (generation_strategy c))
     \<and> gs_model (generation_strategy c1) = gs_model (generation_strategy c)
     \<and> outcome_constraints c1 = outcome_constraints c
     \<and> ax_experiment c1 = ax_experiment c
     \<and> (\<forall>j. j \<noteq> curr (generation_strategy c) \<longrightarrow>
           steps (generation_strategy c1) ! j = steps (generation_strategy c) ! j)"
  by (simp add: decrement_threshold_def current_step_def Let_def)

text \<open>The small engine on the first trial of an empty experiment.\<close>

lemma test_attach:
  "attach_trial (test_engine v ff point pp best) params test_client0
     = (Inr 0, test_client0\<lparr>ax_experiment := [(0, Running)]\<rparr>)"
  by (simp add: test_engine_def test_new_trial_def test_client0_def)

lemma test_fetch:
  "get_trial (test_engine v ff point pp best) (Some 0)
       (test_client0\<lparr>ax_experiment := [(0, Running)]\<rparr>)
     = (Inr 0, test_client0\<lparr>ax_experiment := [(0, Running)]\<rparr>)"
  by (simp add: test_engine_def test_get_trial_def)



text \<open>
  C1 (as amended). A trial without the \<open>ax_trial_id\<close> attribute is attached and
  fetched. When it has not failed, the generator does not enforce \<open>n_init\<close> and the
  current step of the strategy is the Sobol step, \<open>num_trials\<close> of that step goes down
  by exactly one; with an engine of version 0.3.5 or later the threshold of the step's
  first transition criterion goes down by exactly one as well, and with an older engine
  the transition criteria are left alone. Nothing else in the strategy or the experiment
  changes, and the engine is then asked to move to the next step. When the trial has
  failed, or the generator enforces \<open>n_init\<close>, or the current step is not the Sobol
  step, the client is exactly as the attach and the fetch left it. A trial whose id the
  engine resolves goes through neither the attach nor the reduction.
\<close>

theorem tell_attach_reduces_n_init:
  assumes ext: "ax_trial_id trial = NoAttribute"
    and att: "attach_trial eng (trial_params trial) c = (Inr tid, c1)"
    and fetch: "get_trial eng (Some tid) c1 = (Inr t, c2)"
    and wf: "curr (generation_strategy c2) < length (steps (generation_strategy c2))"
  shows
    "(status trial \<noteq> FAILED \<and> \<not> enforce_n_init self
        \<and> model (current_step (generation_strategy c2)) = SOBOL
        \<and> ax_version_ge_0_3_5 eng
        \<and> transition_criteria (current_step (generation_strategy c2)) \<noteq> [] \<longrightarrow>
      (\<exists>c3. num_trials (current_step (generation_strategy c3))
               = num_trials (current_step (generation_strategy c2)) - 1
           \<and> threshold (hd (transition_criteria (current_step (generation_strategy c3))))
               = threshold (hd (transition_criteria (current_step (generation_strategy c2)))) - 1
           \<and> tl (transition_criteria (current_step (generation_strategy c3)))
               = tl (transition_criteria (current_step (generation_strategy c2)))
           \<and> model (current_step (generation_strategy c3)) = SOBOL
           \<and> curr (generation_strategy c3) = curr (generation_strategy c2)
           \<and> length (steps (generation_strategy c3)) = length (steps (generation_strategy c2))
           \<and> (\<forall>j. j \<noteq> curr (generation_strategy c2) \<longrightarrow>
                 steps (generation_strategy c3) ! j = steps (generation_strategy c2) ! j)
           \<and> ax_experiment c3 = ax_experiment c2
           \<and> tell_resolve eng self trial (l, c)
               = (fst (raised (maybe_move_to_next_step eng c3)),
                  l\<lparr>trial_id := Some (Some tid), ax_trial := Some t\<rparr>,
                  snd (raised (maybe_move_to_next_step eng c3)))))
   \<and> (status trial \<noteq> FAILED \<and> \<not> enforce_n_init self
        \<and> model (current_step (generation_strategy c2)) = SOBOL
        \<and> \<not> ax_version_ge_0_3_5 eng \<longrightarrow>
      (\<exists>c3. num_trials (current_step (generation_strategy c3))
               = num_trials (current_step (generation_strategy c2)) - 1
           \<and> transition_criteria (current_step (generation_strategy c3))
               = transition_criteria (current_step (generation_strategy c2))
           \<and> model (current_step (generation_strategy c3)) = SOBOL
           \<and> curr (generation_strategy c3) = curr (generation_strategy c2)
           \<and> length (steps (generation_strategy c3)) = length (steps (generation_strategy c2))
           \<and> (\<forall>j. j \<noteq> curr (generation_strategy c2) \<longrightarrow>
                 steps (generation_strategy c3) ! j = steps (generation_strategy c2) ! j)
           \<and> ax_experiment c3 = ax_experiment c2
           \<and> tell_resolve eng self trial (l, c)
               = (fst (raised (maybe_move_to_next_step eng c3)),
                  l\<lparr>trial_id := Some (Some tid), ax_trial := Some t\<rparr>,
                  snd (raised (maybe_move_to_next_step eng c3)))))
   \<and> (status trial = FAILED \<or> enforce_n_init self
        \<or> model (current_step (generation_strategy c2)) \<noteq> SOBOL \<longrightarrow>
        tell_resolve eng self trial (l, c)
          = (None, l\<lparr>trial_id := Some (Some tid), ax_trial := Some t\<rparr>, c2))
   \<and> (\<forall>trial' tid' t' c'.
         ax_trial_id trial' = Attribute tid' \<longrightarrow> get_trial eng tid' c = (Inr t', c') \<longrightarrow>
         tell_resolve eng self trial' (l, c)
           = (None, l\<lparr>trial_id := Some tid', ax_trial := Some t'\<rparr>, c'))"
proof (intro conjI impI allI)
  have res: "tell_resolve eng self trial (l, c) =
     (fst (reduce_n_init eng self trial c2),
      l\<lparr>trial_id := Some (Some tid), ax_trial := Some t\<rparr>,
      snd (reduce_n_init eng self trial c2))"
    using ext att fetch by (simp add: tell_resolve_no_attribute tell_except_attached)
  {
    assume a: "status trial \<noteq> FAILED \<and> \<not> enforce_n_init self
        \<and> model (current_step (generation_strategy c2)) = SOBOL
        \<and> ax_version_ge_0_3_5 eng
        \<and> transition_criteria (current_step (generation_strategy c2)) \<noteq> []"
    then obtain tc tcs where
      tcs: "transition_criteria (current_step (generation_strategy c2)) = tc # tcs"
      by (cases "transition_criteria (current_step (generation_strategy c2))") auto
    let ?d = "decrement_num_trials c2"
    have wf': "curr (generation_strategy ?d) < length (steps (generation_strategy ?d))"
      using wf decrement_num_trials_frame [of c2] by simp
    have step: "current_step (generation_strategy ?d)
                  = (current_step (generation_strategy c2))
                      \<lparr>num_trials := num_trials (current_step (generation_strategy c2)) - 1\<rparr>"
      using wf by (rule decrement_num_trials_step)
    then have tcs': "transition_criteria (current_step (generation_strategy ?d)) = tc # tcs"
      using tcs by simp
    from decrement_threshold_step [OF wf' tcs'] obtain c3 where c3:
      "decrement_threshold ?d = Inr c3"
      "current_step (generation_strategy c3)
         = (current_step (generation_strategy ?d))
             \<lparr>transition_criteria := tc\<lparr>threshold := threshold tc - 1\<rparr> # tcs\<rparr>"
      "curr (generation_strategy c3) = curr (generation_strategy ?d)"
      "length (steps (generation_strategy c3)) = length (steps (generation_strategy ?d))"
      "ax_experiment c3 = ax_experiment ?d"
      "\<forall>j. j \<noteq> curr (generation_strategy ?d) \<longrightarrow>
           steps (generation_strategy c3) ! j = steps (generation_strategy ?d) ! j"
      by blast
    have red: "reduce_n_init eng self trial c2 = raised (maybe_move_to_next_step eng c3)"
      using a c3(1) by (simp add: reduce_n_init_def raised_def split: prod.splits sum.splits)
    show "\<exists>c3. num_trials (current_step (generation_strategy c3))
               = num_trials (current_step (generation_strategy c2)) - 1
           \<and> threshold (hd (transition_criteria (current_step (generation_strategy c3))))
               = threshold (hd (transition_criteria (current_step (generation_strategy c2)))) - 1
           \<and> tl (transition_criteria (current_step (generation_strategy c3)))
               = tl (transition_criteria (current_step (generation_strategy c2)))
           \<and> model (current_step (generation_strategy c3)) = SOBOL
           \<and> curr (generation_strategy c3) = curr (generation_strategy c2)
           \<and> length (steps (generation_strategy c3)) = length (steps (generation_strategy c2))
           \<and> (\<forall>j. j \<noteq> curr (generation_strategy c2) \<longrightarrow>
                 steps (generation_strategy c3) ! j = steps (generation_strategy c2) ! j)
           \<and> ax_experiment c3 = ax_experiment c2
           \<and> tell_resolve eng self trial (l, c)
               = (fst (raised (maybe_move_to_next_step eng c3)),
                  l\<lparr>trial_id := Some (Some tid), ax_trial := Some t\<rparr>,
                  snd (raised (maybe_move_to_next_step eng c3)))"
      apply (rule exI [of _ c3])
      using c3 step tcs a res red decrement_num_trials_frame [of c2] by simp
  }
  {
    assume a: "status trial \<noteq> FAILED \<and> \<not> enforce_n_init self
        \<and> model (current_step (generation_strategy c2)) = SOBOL
        \<and> \<not> ax_version_ge_0_3_5 eng"
    let ?d = "decrement_num_trials c2"
    have step: "current_step (generation_strategy ?d)
                  = (current_step (generation_strategy c2))
                      \<lparr>num_trials := num_trials (current_step (generation_strategy c2)) - 1\<rparr>"
      using wf by (rule decrement_num_trials_step)
    have red: "reduce_n_init eng self trial c2 = raised (maybe_move_to_next_step eng ?d)"
      using a by (simp add: reduce_n_init_def raised_def split: prod.splits sum.splits)
    show "\<exists>c3. num_trials (current_step (generation_strategy c3))
               = num_trials (current_step (generation_strategy c2)) - 1
           \<and> transition_criteria (current_step (generation_strategy c3))
               = transition_criteria (current_step (generation_strategy c2))
           \<and> model (current_step (generation_strategy c3)) = SOBOL
           \<and> curr (generation_strategy c3) = curr (generation_strategy c2)
           \<and> length (steps (generation_strategy c3)) = length (steps (generation_strategy c2))
           \<and> (\<forall>j. j \<noteq> curr (generation_strategy c2) \<longrightarrow>
                 steps (generation_strategy c3) ! j = steps (generation_strategy c2) ! j)
           \<and> ax_experiment c3 = ax_experiment c2
           \<and> tell_resolve eng self trial (l, c)
               = (fst (raised (maybe_move_to_next_step eng c3)),
                  l\<lparr>trial_id := Some (Some tid), ax_trial := Some t\<rparr>,
                  snd (raised (maybe_move_to_next_step eng c3)))"
      apply (rule exI [of _ ?d])
      using step a res red decrement_num_trials_frame [of c2] by simp
  }
  {
    assume "status trial = FAILED \<or> enforce_n_init self
        \<or> model (current_step (generation_strategy c2)) \<noteq> SOBOL"
    then have "reduce_n_init eng self trial c2 = (None, c2)"
      by (auto simp: reduce_n_init_def)
    with res show "tell_resolve eng self trial (l, c)
          = (None, l\<lparr>trial_id := Some (Some tid), ax_trial := Some t\<rparr>, c2)"
      by simp
  }
  {
    fix trial' :: Trial and tid' t' c'
    assume "ax_trial_id trial' = Attribute tid'" "get_trial eng tid' c = (Inr t', c')"
    then show "tell_resolve eng self trial' (l, c)
           = (None, l\<lparr>trial_id := Some tid', ax_trial := Some t'\<rparr>, c')"
      by (simp add: tell_resolve_def tell_try_fetched)
  }
qed

theorem tell_attach_reduces_n_init_witness:
  "ax_trial_id (test_trial NoAttribute COMPLETED) = NoAttribute
   \<and> attach_trial (test_engine True True Map.empty [] None)
         (trial_params (test_trial NoAttribute COMPLETED)) test_client0
       = (Inr 0, test_client0\<lparr>ax_experiment := [(0, Running)]\<rparr>)
   \<and> get_trial (test_engine True True Map.empty [] None) (Some 0)
         (test_client0\<lparr>ax_experiment := [(0, Running)]\<rparr>)
       = (Inr 0, test_client0\<lparr>ax_experiment := [(0, Running)]\<rparr>)
   \<and> num_trials (current_step (generation_strategy test_client0)) = 4
   \<and> threshold (hd (transition_criteria (current_step (generation_strategy test_client0)))) = 4
   \<and> (\<exists>c3. num_trials (current_step (generation_strategy c3)) = 3
          \<and> threshold (hd (transition_criteria (current_step (generation_strategy c3)))) = 3
          \<and> tell_resolve (test_engine True True Map.empty [] None) (test_generator False [])
               (test_trial NoAttribute COMPLETED)
               (\<lparr>trial_id = None, ax_trial = None\<rparr>, test_client0)
             = (fst (raised (maybe_move_to_next_step
                               (test_engine True True Map.empty [] None) c3)),
                \<lparr>trial_id = Some (Some 0), ax_trial = Some 0\<rparr>,
                snd (raised (maybe_move_to_next_step
                               (test_engine True True Map.empty [] None) c3))))"
proof -
  let ?E = "test_engine True True Map.empty [] None"
  let ?G = "test_generator False []"
  let ?T = "test_trial NoAttribute COMPLETED"
  let ?c1 = "test_client0\<lparr>ax_experiment := [(0, Running)]\<rparr>"
  have ext: "ax_trial_id ?T = NoAttribute" by (simp add: test_trial_def)
  have att: "attach_trial ?E (trial_params ?T) test_client0 = (Inr 0, ?c1)"
    by (rule test_attach)
  have fetch: "get_trial ?E (Some 0) ?c1 = (Inr 0, ?c1)" by (rule test_fetch)
  have wf: "curr (generation_strategy ?c1) < length (steps (generation_strategy ?c1))"
    by (simp add: test_client0_def)
  have n0: "num_trials (current_step (generation_strategy test_client0)) = 4"
    "threshold (hd (transition_criteria (current_step (generation_strategy test_client0)))) = 4"
    by (simp_all add: test_client0_def current_step_def)
  have n: "num_trials (current_step (generation_strategy ?c1)) = 4"
    "threshold (hd (transition_criteria (current_step (generation_strategy ?c1)))) = 4"
    by (simp_all add: test_client0_def current_step_def)
  have pre: "status ?T \<noteq> FAILED \<and> \<not> enforce_n_init ?G
        \<and> model (current_step (generation_strategy ?c1)) = SOBOL
        \<and> ax_version_ge_0_3_5 ?E
        \<and> transition_criteria (current_step (generation_strategy ?c1)) \<noteq> []"
    by (simp add: test_trial_def test_generator_def test_client0_def current_step_def
        test_engine_def)
  from tell_attach_reduces_n_init [OF ext att fetch wf, of ?G "\<lparr>trial_id = None, ax_trial = None\<rparr>"]
    pre n
  have "\<exists>c3. num_trials (current_step (generation_strategy c3)) = 3
          \<and> threshold (hd (transition_criteria (current_step (generation_strategy c3)))) = 3
          \<and> tell_resolve ?E ?G ?T (\<lparr>trial_id = None, ax_trial = None\<rparr>, test_client0)
             = (fst (raised (maybe_move_to_next_step ?E c3)),
                \<lparr>trial_id = Some (Some 0), ax_trial = Some 0\<rparr>,
                snd (raised (maybe_move_to_next_step ?E c3)))"
    by auto
  with ext att fetch n0 show ?thesis by blast
qed

text \<open>
  C1 as stated fails: with an engine older than 0.3.5 the attach of a completed trial
  without an id takes \<open>num_trials\<close> of the Sobol step from four to three and leaves
  the threshold of its transition criterion at four.
\<close>

theorem tell_attach_old_engine_keeps_threshold:
  "ax_trial_id (test_trial NoAttribute COMPLETED) = NoAttribute
   \<and> status (test_trial NoAttribute COMPLETED) \<noteq> FAILED
   \<and> \<not> enforce_n_init (test_generator False [])
   \<and> \<not> ax_version_ge_0_3_5 (test_engine False True Map.empty [] None)
   \<and> current_step (generation_strategy test_client0)
       = \<lparr>model = SOBOL, num_trials = 4, transition_criteria = [\<lparr>threshold = 4\<rparr>],
          fitted_model = None\<rparr>
   \<and> fst (tell (test_engine False True Map.empty [] None) (test_generator False [])
            [test_trial NoAttribute COMPLETED] test_client0) = None
   \<and> current_step (generation_strategy
        (snd (tell (test_engine False True Map.empty [] None) (test_generator False [])
                [test_trial NoAttribute COMPLETED] test_client0)))
       = \<lparr>model = SOBOL, num_trials = 3, transition_criteria = [\<lparr>threshold = 4\<rparr>],
          fitted_model = None\<rparr>"
  by (simp add: tell_def tell_trial_def tell_resolve_def tell_try_def tell_except_def
      tell_finally_def reduce_n_init_def decrement_num_trials_def raised_def completed_def
      test_trial_def test_generator_def test_engine_def test_client0_def test_new_trial_def
      test_get_trial_def test_set_status_def test_maybe_move_def current_step_def Let_def)

text \<open>
  A whole call on the small engine at version 0.3.5 or later: the attach of a completed
  trial without an id takes both counters of the Sobol step from four to three and
  completes the attached trial; with \<open>enforce_n_init\<close> set both stay at four.
\<close>

lemma tell_attach_new_engine_example:
  "fst (tell (test_engine True True Map.empty [] None) (test_generator False [])
          [test_trial NoAttribute COMPLETED] test_client0) = None
   \<and> current_step (generation_strategy
        (snd (tell (test_engine True True Map.empty [] None) (test_generator False [])
                [test_trial NoAttribute COMPLETED] test_client0)))
       = \<lparr>model = SOBOL, num_trials = 3, transition_criteria = [\<lparr>threshold = 3\<rparr>],
          fitted_model = None\<rparr>
   \<and> ax_experiment
        (snd (tell (test_engine True True Map.empty [] None) (test_generator False [])
                [test_trial NoAttribute COMPLETED] test_client0))
       = [(0, Completed)]
   \<and> current_step (generation_strategy
        (snd (tell (test_engine True True Map.empty [] None) (test_generator True [])
                [test_trial NoAttribute COMPLETED] test_client0)))
       = \<lparr>model = SOBOL, num_trials = 4, transition_criteria = [\<lparr>threshold = 4\<rparr>],
          fitted_model = None\<rparr>"
  by (simp add: tell_def tell_trial_def tell_resolve_def tell_try_def tell_except_def
      tell_finally_def reduce_n_init_def decrement_num_trials_def decrement_threshold_def
      raised_def completed_def
      test_trial_def test_generator_def test_engine_def test_client0_def test_new_trial_def
      test_get_trial_def test_set_status_def test_maybe_move_def current_step_def Let_def)

text \<open>
  The outcome map and the marking step.
\<close>

lemma fold_upd_other:
  "n \<notin> k ` set xs \<Longrightarrow>
   fold (\<lambda>x m. if P x then m(k x \<mapsto> g x) else m) xs m0 n = m0 n"
  by (induction xs arbitrary: m0) auto

lemma fold_upd_dom:
  "dom (fold (\<lambda>x m. if P x then m(k x \<mapsto> g x) else m) xs m0)
     = dom m0 \<union> k ` {x \<in> set xs. P x}"
  by (induction xs arbitrary: m0) auto

lemma fold_upd_value:
  "distinct (map k xs) \<Longrightarrow> x \<in> set xs \<Longrightarrow> P x \<Longrightarrow>
   fold (\<lambda>x m. if P x then m(k x \<mapsto> g x) else m) xs m0 (k x) = Some (g x)"
proof (induction xs arbitrary: m0)
  case Nil
  then show ?case by simp
next
  case (Cons a xs)
  show ?case
  proof (cases "x = a")
    case True
    with Cons.prems have "k a \<notin> k ` set xs" by auto
    from fold_upd_other [OF this, of P g "m0(k a \<mapsto> g a)"] True Cons.prems
    show ?thesis by simp
  next
    case False
    with Cons.prems have "x \<in> set xs" "distinct (map k xs)" by auto
    from Cons.IH [OF this(2) this(1) Cons.prems(3)] show ?thesis by simp
  qed
qed

lemma outcome_evals_dom:
  "dom (outcome_evals trial ocs)
     = ev_name ` set (objective_evaluations trial)
       \<union> ev_name ` {ev \<in> set (parameter_evaluations trial). ev_name ev \<in> set ocs}"
proof -
  have o: "dom (fold (\<lambda>ev m. m(ev_name ev \<mapsto> (ev_value ev, ev_sem ev)))
                  (objective_evaluations trial) Map.empty)
             = ev_name ` set (objective_evaluations trial)"
    using fold_upd_dom [where P = "\<lambda>x. True" and k = ev_name
        and g = "\<lambda>ev. (ev_value ev, ev_sem ev)" and xs = "objective_evaluations trial"
        and ?m0.0 = Map.empty]
    by simp
  show ?thesis
  proof (cases "ocs = []")
    case True
    with o show ?thesis by (simp add: outcome_evals_def Let_def)
  next
    case False
    with o show ?thesis by (simp add: outcome_evals_def Let_def fold_upd_dom)
  qed
qed

lemma outcome_evals_objective:
  assumes d: "distinct (map ev_name (objective_evaluations trial @ parameter_evaluations trial))"
    and ev: "ev \<in> set (objective_evaluations trial)"
  shows "outcome_evals trial ocs (ev_name ev) = Some (ev_value ev, ev_sem ev)"
proof -
  from d have d1: "distinct (map ev_name (objective_evaluations trial))" by simp
  have o: "fold (\<lambda>ev m. m(ev_name ev \<mapsto> (ev_value ev, ev_sem ev)))
             (objective_evaluations trial) Map.empty (ev_name ev)
           = Some (ev_value ev, ev_sem ev)"
    using fold_upd_value [where P = "\<lambda>x. True" and k = ev_name
        and g = "\<lambda>ev. (ev_value ev, ev_sem ev)", OF d1 ev, of Map.empty]
    by simp
  from d ev have n: "ev_name ev \<notin> ev_name ` set (parameter_evaluations trial)" by auto
  show ?thesis
    using o fold_upd_other [OF n, of "\<lambda>e. ev_name e \<in> set ocs"
        "\<lambda>ev. (ev_value ev, ev_sem ev)"
        "fold (\<lambda>ev m. m(ev_name ev \<mapsto> (ev_value ev, ev_sem ev)))
           (objective_evaluations trial) Map.empty"]
    by (simp add: outcome_evals_def Let_def)
qed

lemma outcome_evals_parameter:
  assumes d: "distinct (map ev_name (objective_evaluations trial @ parameter_evaluations trial))"
    and ev: "ev \<in> set (parameter_evaluations trial)" and oc: "ev_name ev \<in> set ocs"
  shows "outcome_evals trial ocs (ev_name ev) = Some (ev_value ev, ev_sem ev)"
proof -
  from d have d2: "distinct (map ev_name (parameter_evaluations trial))" by simp
  from oc have "ocs \<noteq> []" by auto
  then show ?thesis
    using fold_upd_value [where P = "\<lambda>e. ev_name e \<in> set ocs" and k = ev_name
        and g = "\<lambda>ev. (ev_value ev, ev_sem ev)", OF d2 ev oc]
    by (simp add: outcome_evals_def Let_def)
qed

lemma tell_resolve_binds_locals:
  "tell_resolve eng self trial (l, c) = (None, l1, c1) \<Longrightarrow>
   \<exists>tid t. trial_id l1 = Some tid \<and> ax_trial l1 = Some t"
  by (auto simp: tell_resolve_def tell_try_def tell_except_def
      split: attribute.splits prod.splits sum.splits if_splits option.splits)

lemma tell_trial_finally:
  "tell_resolve eng self trial lc = (r, l1, c1) \<Longrightarrow>
   tell_trial eng self trial lc =
     (case fst (tell_finally eng self trial (l1, c1)) of Some e \<Rightarrow> Some e | None \<Rightarrow> r,
      l1, snd (tell_finally eng self trial (l1, c1)))"
  by (simp add: tell_trial_def split: prod.splits option.splits)

lemma tell_loop_append:
  "tell_loop eng self (ts @ ts') lc =
     (case tell_loop eng self ts lc of
        (Some e, l, c) \<Rightarrow> (Some e, l, c)
      | (None, l, c) \<Rightarrow> tell_loop eng self ts' (l, c))"
proof (induction ts arbitrary: lc)
  case Nil
  show ?case by (cases lc) simp
next
  case (Cons t ts)
  show ?case
    by (cases "tell_trial eng self t lc") (auto simp: Cons.IH split: option.splits)
qed

lemma tell_split:
  "tell_loop eng self ts (\<lparr>trial_id = None, ax_trial = None\<rparr>, c0) = (None, l, c) \<Longrightarrow>
   tell eng self (ts @ trial # rest) c0 =
     (case tell_trial eng self trial (l, c) of
        (Some e, l1, c2) \<Rightarrow> (Some e, c2)
      | (None, l1, c2) \<Rightarrow> (case tell_loop eng self rest (l1, c2) of (r, l', c') \<Rightarrow> (r, c')))"
  by (simp add: tell_def tell_loop_append split: prod.splits option.splits)

lemma tell_resolve_provenance:
  assumes res: "tell_resolve eng self trial (l, c) = (None, l1, c1)"
  shows "\<exists>tid t. l1 = l\<lparr>trial_id := Some tid, ax_trial := Some t\<rparr>
    \<and> ((ax_trial_id trial = Attribute tid \<and> get_trial eng tid c = (Inr t, c1))
       \<or> (\<exists>ca i cb cc.
             (ax_trial_id trial = NoAttribute \<and> ca = c
              \<or> (\<exists>tid0 e. ax_trial_id trial = Attribute tid0
                     \<and> get_trial eng tid0 c = (Inl e, ca) \<and> fst e = AttributeError))
           \<and> attach_trial eng (trial_params trial) ca = (Inr i, cb) \<and> tid = Some i
           \<and> get_trial eng (Some i) cb = (Inr t, cc)
           \<and> reduce_n_init eng self trial cc = (None, c1)))"
proof -
  have handler: "\<exists>i t cb cc. l1 = la\<lparr>trial_id := Some (Some i), ax_trial := Some t\<rparr>
      \<and> attach_trial eng (trial_params trial) ca = (Inr i, cb)
      \<and> get_trial eng (Some i) cb = (Inr t, cc)
      \<and> reduce_n_init eng self trial cc = (None, c1)"
    if "tell_except eng self trial (la, ca) = (None, l1, c1)" for la ca
    using that by (auto simp: tell_except_def split: prod.splits sum.splits)
  show ?thesis
  proof (cases "ax_trial_id trial")
    case NoAttribute
    with res have "tell_except eng self trial (l, c) = (None, l1, c1)"
      by (simp add: tell_resolve_no_attribute)
    from handler [OF this] NoAttribute show ?thesis by blast
  next
    case (Attribute tid0)
    show ?thesis
    proof (cases "get_trial eng tid0 c")
      case (Pair x ca)
      show ?thesis
      proof (cases x)
        case (Inr t)
        with Pair Attribute res show ?thesis
          by (simp add: tell_resolve_def tell_try_fetched)
      next
        case (Inl e)
        with Pair Attribute res have ae: "fst e = AttributeError"
          and ex: "tell_except eng self trial (l\<lparr>trial_id := Some tid0\<rparr>, ca) = (None, l1, c1)"
          by (auto simp: tell_resolve_def tell_try_raised split: if_splits)
        from handler [OF ex] obtain i t cb cc where
          h: "l1 = l\<lparr>trial_id := Some tid0\<rparr>\<lparr>trial_id := Some (Some i), ax_trial := Some t\<rparr>"
          "attach_trial eng (trial_params trial) ca = (Inr i, cb)"
          "get_trial eng (Some i) cb = (Inr t, cc)"
          "reduce_n_init eng self trial cc = (None, c1)"
          by blast
        from h(1) have "l1 = l\<lparr>trial_id := Some (Some i), ax_trial := Some t\<rparr>" by simp
        with h(2-4) Attribute Pair Inl ae show ?thesis by blast
      qed
    qed
  qed
qed

lemma tell_finally_bound:
  "trial_id l1 = Some tid \<Longrightarrow> ax_trial l1 = Some t \<Longrightarrow>
   tell_finally eng self trial (l1, c1) =
     (if completed trial then
        raised (complete_trial eng tid (outcome_evals trial (outcome_constraints c1)) c1)
      else if failed trial then
        (if abandon_failed_trials self then raised (mark_abandoned eng t c1)
         else raised (mark_failed eng t c1))
      else (None, c1))"
  by (simp add: tell_finally_def)

lemma test_resolve_attached:
  "tell_resolve (test_engine True True Map.empty [] None) (test_generator True objs)
     (test_trial NoAttribute st) (\<lparr>trial_id = None, ax_trial = None\<rparr>, test_client0)
   = (None, \<lparr>trial_id = Some (Some 0), ax_trial = Some 0\<rparr>,
      test_client0\<lparr>ax_experiment := [(0, Running)]\<rparr>)"
proof -
  have "ax_trial_id (test_trial NoAttribute st) = NoAttribute" by (simp add: test_trial_def)
  then show ?thesis
    by (simp add: tell_resolve_no_attribute
        tell_except_attached [OF test_attach test_fetch] reduce_n_init_def test_generator_def)
qed

text \<open>
  C2 (as amended). \<open>_tell\<close> takes the trials in order. For a trial that the loop
  reaches and whose engine trial is resolved without an exception, the resolved id and
  engine trial are the trial's own: fetched by the id the trial carries, or, for a trial
  without one, attached from the trial's parameters and then fetched. The call then makes
  one call on the engine for this trial: for a completed trial \<open>complete_trial\<close> with
  that id and the outcome map, for a failed trial \<open>mark_abandoned\<close> on that engine
  trial when \<open>abandon_failed_trials\<close> is set and \<open>mark_failed\<close> otherwise; it
  raises what that call raises and otherwise goes on with the remaining trials. The keys
  of the outcome map are exactly the names of the trial's objective evaluations (the
  names of the configured objectives, when the trial carries one evaluation for each)
  and of those parameter evaluations whose name is the metric of an outcome constraint,
  and (names being distinct) each is mapped to its value and standard error.
\<close>

theorem tell_marks_engine_trial:
  assumes before: "tell_loop eng self ts (\<lparr>trial_id = None, ax_trial = None\<rparr>, c0) = (None, l, c)"
    and res: "tell_resolve eng self trial (l, c) = (None, l1, c1)"
  shows "\<exists>tid t. l1 = l\<lparr>trial_id := Some tid, ax_trial := Some t\<rparr>
    \<and> ((ax_trial_id trial = Attribute tid \<and> get_trial eng tid c = (Inr t, c1))
       \<or> (\<exists>ca i cb cc.
             (ax_trial_id trial = NoAttribute \<and> ca = c
              \<or> (\<exists>tid0 e. ax_trial_id trial = Attribute tid0
                     \<and> get_trial eng tid0 c = (Inl e, ca) \<and> fst e = AttributeError))
           \<and> attach_trial eng (trial_params trial) ca = (Inr i, cb) \<and> tid = Some i
           \<and> get_trial eng (Some i) cb = (Inr t, cc)
           \<and> reduce_n_init eng self trial cc = (None, c1)))
    \<and> (completed trial \<longrightarrow>
         tell eng self (ts @ trial # rest) c0 =
           (case raised (complete_trial eng tid
                           (outcome_evals trial (outcome_constraints c1)) c1) of
              (Some e, c2) \<Rightarrow> (Some e, c2)
            | (None, c2) \<Rightarrow>
                (case tell_loop eng self rest (l1, c2) of (r, l', c') \<Rightarrow> (r, c'))))
    \<and> (failed trial \<and> abandon_failed_trials self \<longrightarrow>
         tell eng self (ts @ trial # rest) c0 =
           (case raised (mark_abandoned eng t c1) of
              (Some e, c2) \<Rightarrow> (Some e, c2)
            | (None, c2) \<Rightarrow>
                (case tell_loop eng self rest (l1, c2) of (r, l', c') \<Rightarrow> (r, c'))))
    \<and> (failed trial \<and> \<not> abandon_failed_trials self \<longrightarrow>
         tell eng self (ts @ trial # rest) c0 =
           (case raised (mark_failed eng t c1) of
              (Some e, c2) \<Rightarrow> (Some e, c2)
            | (None, c2) \<Rightarrow>
                (case tell_loop eng self rest (l1, c2) of (r, l', c') \<Rightarrow> (r, c'))))
    \<and> dom (outcome_evals trial (outcome_constraints c1))
        = ev_name ` set (objective_evaluations trial)
          \<union> ev_name ` {ev \<in> set (parameter_evaluations trial).
                          ev_name ev \<in> set (outcome_constraints c1)}
    \<and> (map ev_name (objective_evaluations trial) = map obj_name (objectives self) \<longrightarrow>
        dom (outcome_evals trial (outcome_constraints c1))
          = obj_name ` set (objectives self)
            \<union> ev_name ` {ev \<in> set (parameter_evaluations trial).
                            ev_name ev \<in> set (outcome_constraints c1)})
    \<and> (distinct (map ev_name (objective_evaluations trial @ parameter_evaluations trial)) \<longrightarrow>
          (\<forall>ev \<in> set (objective_evaluations trial).
             outcome_evals trial (outcome_constraints c1) (ev_name ev)
               = Some (ev_value ev, ev_sem ev))
        \<and> (\<forall>ev \<in> set (parameter_evaluations trial).
             ev_name ev \<in> set (outcome_constraints c1) \<longrightarrow>
             outcome_evals trial (outcome_constraints c1) (ev_name ev)
               = Some (ev_value ev, ev_sem ev)))"
proof -
  from tell_resolve_provenance [OF res] obtain tid t where
    l1: "l1 = l\<lparr>trial_id := Some tid, ax_trial := Some t\<rparr>"
    and prov: "(ax_trial_id trial = Attribute tid \<and> get_trial eng tid c = (Inr t, c1))
       \<or> (\<exists>ca i cb cc.
             (ax_trial_id trial = NoAttribute \<and> ca = c
              \<or> (\<exists>tid0 e. ax_trial_id trial = Attribute tid0
                     \<and> get_trial eng tid0 c = (Inl e, ca) \<and> fst e = AttributeError))
           \<and> attach_trial eng (trial_params trial) ca = (Inr i, cb) \<and> tid = Some i
           \<and> get_trial eng (Some i) cb = (Inr t, cc)
           \<and> reduce_n_init eng self trial cc = (None, c1))"
    by blast
  from l1 have b: "trial_id l1 = Some tid" "ax_trial l1 = Some t" by simp_all
  have step: "tell_trial eng self trial (l, c) =
      (fst (tell_finally eng self trial (l1, c1)), l1, snd (tell_finally eng self trial (l1, c1)))"
    using tell_trial_finally [OF res] by (simp split: option.splits)
  have whole: "tell eng self (ts @ trial # rest) c0 =
      (case tell_finally eng self trial (l1, c1) of
         (Some e, c2) \<Rightarrow> (Some e, c2)
       | (None, c2) \<Rightarrow> (case tell_loop eng self rest (l1, c2) of (r, l', c') \<Rightarrow> (r, c')))"
    by (cases "tell_finally eng self trial (l1, c1)")
      (simp add: tell_split [OF before] step split: option.splits)
  have fl: "completed trial \<Longrightarrow> \<not> failed trial"
    by (simp add: completed_def failed_def)
  have comp: "completed trial \<longrightarrow>
         tell eng self (ts @ trial # rest) c0 =
           (case raised (complete_trial eng tid
                           (outcome_evals trial (outcome_constraints c1)) c1) of
              (Some e, c2) \<Rightarrow> (Some e, c2)
            | (None, c2) \<Rightarrow>
                (case tell_loop eng self rest (l1, c2) of (r, l', c') \<Rightarrow> (r, c')))"
    by (simp add: whole tell_finally_bound [OF b])
  have ab: "failed trial \<and> abandon_failed_trials self \<longrightarrow>
         tell eng self (ts @ trial # rest) c0 =
           (case raised (mark_abandoned eng t c1) of
              (Some e, c2) \<Rightarrow> (Some e, c2)
            | (None, c2) \<Rightarrow>
                (case tell_loop eng self rest (l1, c2) of (r, l', c') \<Rightarrow> (r, c')))"
    using fl by (auto simp: whole tell_finally_bound [OF b])
  have fa: "failed trial \<and> \<not> abandon_failed_trials self \<longrightarrow>
         tell eng self (ts @ trial # rest) c0 =
           (case raised (mark_failed eng t c1) of
              (Some e, c2) \<Rightarrow> (Some e, c2)
            | (None, c2) \<Rightarrow>
                (case tell_loop eng self rest (l1, c2) of (r, l', c') \<Rightarrow> (r, c')))"
    using fl by (auto simp: whole tell_finally_bound [OF b])
  have names: "map ev_name (objective_evaluations trial) = map obj_name (objectives self) \<longrightarrow>
        dom (outcome_evals trial (outcome_constraints c1))
          = obj_name ` set (objectives self)
            \<union> ev_name ` {ev \<in> set (parameter_evaluations trial).
                            ev_name ev \<in> set (outcome_constraints c1)}"
  proof
    assume "map ev_name (objective_evaluations trial) = map obj_name (objectives self)"
    then have "set (map ev_name (objective_evaluations trial))
                 = set (map obj_name (objectives self))"
      by simp
    then have "ev_name ` set (objective_evaluations trial) = obj_name ` set (objectives self)"
      by simp
    then show "dom (outcome_evals trial (outcome_constraints c1))
          = obj_name ` set (objectives self)
            \<union> ev_name ` {ev \<in> set (parameter_evaluations trial).
                            ev_name ev \<in> set (outcome_constraints c1)}"
      by (simp add: outcome_evals_dom)
  qed
  show ?thesis
    apply (rule exI [of _ tid], rule exI [of _ t])
    apply (intro conjI)
           apply (rule l1)
          apply (rule prov)
         apply (rule comp)
        apply (rule ab)
       apply (rule fa)
      apply (rule outcome_evals_dom)
     apply (rule names)
    using outcome_evals_objective outcome_evals_parameter apply blast
    done
qed

theorem tell_marks_engine_trial_witness:
  "tell_loop (test_engine True True Map.empty [] None)
      (test_generator True [\<lparr>obj_name = ''f'', minimize = True\<rparr>]) []
      (\<lparr>trial_id = None, ax_trial = None\<rparr>, test_client0)
     = (None, \<lparr>trial_id = None, ax_trial = None\<rparr>, test_client0)
   \<and> tell_resolve (test_engine True True Map.empty [] None)
       (test_generator True [\<lparr>obj_name = ''f'', minimize = True\<rparr>])
       (test_trial NoAttribute COMPLETED) (\<lparr>trial_id = None, ax_trial = None\<rparr>, test_client0)
     = (None, \<lparr>trial_id = Some (Some 0), ax_trial = Some 0\<rparr>,
        test_client0\<lparr>ax_experiment := [(0, Running)]\<rparr>)
   \<and> completed (test_trial NoAttribute COMPLETED)
   \<and> map ev_name (objective_evaluations (test_trial NoAttribute COMPLETED))
       = map obj_name (objectives (test_generator True [\<lparr>obj_name = ''f'', minimize = True\<rparr>]))
   \<and> tell (test_engine True True Map.empty [] None)
        (test_generator True [\<lparr>obj_name = ''f'', minimize = True\<rparr>])
        [test_trial NoAttribute COMPLETED] test_client0
     = (None, test_client0\<lparr>ax_experiment := [(0, Completed)]\<rparr>)
   \<and> dom (outcome_evals (test_trial NoAttribute COMPLETED) [''m1'']) = {''f'', ''m1''}
   \<and> outcome_evals (test_trial NoAttribute COMPLETED) [''m1''] ''f'' = Some (3, None)
   \<and> outcome_evals (test_trial NoAttribute COMPLETED) [''m1''] ''m1'' = Some (2, None)
   \<and> failed (test_trial NoAttribute FAILED)
   \<and> abandon_failed_trials (test_generator True [\<lparr>obj_name = ''f'', minimize = True\<rparr>])
   \<and> tell (test_engine True True Map.empty [] None)
        (test_generator True [\<lparr>obj_name = ''f'', minimize = True\<rparr>])
        [test_trial NoAttribute FAILED] test_client0
     = (None, test_client0\<lparr>ax_experiment := [(0, Abandoned)]\<rparr>)"
proof -
  let ?E = "test_engine True True Map.empty [] None"
  let ?G = "test_generator True [\<lparr>obj_name = ''f'', minimize = True\<rparr>]"
  let ?l0 = "\<lparr>trial_id = None, ax_trial = None\<rparr> :: int tell_locals"
  let ?l1 = "\<lparr>trial_id = Some (Some 0), ax_trial = Some 0\<rparr> :: int tell_locals"
  let ?c1 = "test_client0\<lparr>ax_experiment := [(0, Running)]\<rparr>"
  let ?T = "test_trial NoAttribute COMPLETED"
  let ?F = "test_trial NoAttribute FAILED"
  have before: "tell_loop ?E ?G [] (?l0, test_client0) = (None, ?l0, test_client0)" by simp
  have oc: "outcome_constraints ?c1 = [''m1'']" by (simp add: test_client0_def)
  have comp: "completed ?T" by (simp add: completed_def test_trial_def)
  have fl: "failed ?F" by (simp add: failed_def test_trial_def)
  have ab: "abandon_failed_trials ?G" by (simp add: test_generator_def)
  have objs: "map ev_name (objective_evaluations ?T) = map obj_name (objectives ?G)"
    by (simp add: test_trial_def test_generator_def)
  have d: "distinct (map ev_name (objective_evaluations ?T @ parameter_evaluations ?T))"
    by (simp add: test_trial_def)
  have names: "obj_name ` set (objectives ?G)
          \<union> ev_name ` {ev \<in> set (parameter_evaluations ?T). ev_name ev \<in> set [''m1'']}
        = {''f'', ''m1''}"
    unfolding set_filter [symmetric]
    by (simp add: test_trial_def test_generator_def insert_commute)
  have evs: "\<lparr>ev_name = ''f'', ev_value = 3, ev_sem = None\<rparr> \<in> set (objective_evaluations ?T)"
    "\<lparr>ev_name = ''m1'', ev_value = 2, ev_sem = None\<rparr> \<in> set (parameter_evaluations ?T)"
    by (simp_all add: test_trial_def)
  have cmpl: "raised (complete_trial ?E (Some 0) data ?c1)
                = (None, test_client0\<lparr>ax_experiment := [(0, Completed)]\<rparr>)" for data
    by (simp add: raised_def test_engine_def test_set_status_def)
  have abandoned: "raised (mark_abandoned ?E 0 ?c1)
                = (None, test_client0\<lparr>ax_experiment := [(0, Abandoned)]\<rparr>)"
    by (simp add: raised_def test_engine_def test_set_status_def)
  have first: "tell ?E ?G [?T] test_client0
       = (None, test_client0\<lparr>ax_experiment := [(0, Completed)]\<rparr>)
     \<and> dom (outcome_evals ?T [''m1'']) = {''f'', ''m1''}
     \<and> outcome_evals ?T [''m1''] ''f'' = Some (3, None)
     \<and> outcome_evals ?T [''m1''] ''m1'' = Some (2, None)"
    using tell_marks_engine_trial [OF before test_resolve_attached [of _ COMPLETED], of "[]"]
  proof (elim exE conjE)
    fix tid t
    assume l1: "?l1 = ?l0\<lparr>trial_id := Some tid, ax_trial := Some t\<rparr>"
      and c: "completed ?T \<longrightarrow>
         tell ?E ?G ([] @ ?T # []) test_client0 =
           (case raised (complete_trial ?E tid (outcome_evals ?T (outcome_constraints ?c1)) ?c1) of
              (Some e, c2) \<Rightarrow> (Some e, c2)
            | (None, c2) \<Rightarrow>
                (case tell_loop ?E ?G [] (?l1, c2) of (r, l', c') \<Rightarrow> (r, c')))"
      and dm: "map ev_name (objective_evaluations ?T) = map obj_name (objectives ?G) \<longrightarrow>
        dom (outcome_evals ?T (outcome_constraints ?c1))
          = obj_name ` set (objectives ?G)
            \<union> ev_name ` {ev \<in> set (parameter_evaluations ?T).
                            ev_name ev \<in> set (outcome_constraints ?c1)}"
      and v: "distinct (map ev_name (objective_evaluations ?T @ parameter_evaluations ?T)) \<longrightarrow>
          (\<forall>ev \<in> set (objective_evaluations ?T).
             outcome_evals ?T (outcome_constraints ?c1) (ev_name ev)
               = Some (ev_value ev, ev_sem ev))
        \<and> (\<forall>ev \<in> set (parameter_evaluations ?T).
             ev_name ev \<in> set (outcome_constraints ?c1) \<longrightarrow>
             outcome_evals ?T (outcome_constraints ?c1) (ev_name ev)
               = Some (ev_value ev, ev_sem ev))"
    from l1 have tid: "tid = Some 0" by simp
    from c comp tid cmpl have run: "tell ?E ?G [?T] test_client0
       = (None, test_client0\<lparr>ax_experiment := [(0, Completed)]\<rparr>)"
      by simp
    from dm objs oc names have dom: "dom (outcome_evals ?T [''m1'']) = {''f'', ''m1''}" by simp
    from v d oc have vo: "\<forall>ev \<in> set (objective_evaluations ?T).
             outcome_evals ?T [''m1''] (ev_name ev) = Some (ev_value ev, ev_sem ev)"
      and vp: "\<forall>ev \<in> set (parameter_evaluations ?T).
             ev_name ev \<in> set [''m1''] \<longrightarrow>
             outcome_evals ?T [''m1''] (ev_name ev) = Some (ev_value ev, ev_sem ev)"
      by simp_all
    from bspec [OF vo evs(1)] have f: "outcome_evals ?T [''m1''] ''f'' = Some (3, None)" by simp
    from bspec [OF vp evs(2)] have m1: "outcome_evals ?T [''m1''] ''m1'' = Some (2, None)" by simp
    from run dom f m1 show ?thesis by simp
  qed
  have second: "tell ?E ?G [?F] test_client0
       = (None, test_client0\<lparr>ax_experiment := [(0, Abandoned)]\<rparr>)"
    using tell_marks_engine_trial [OF before test_resolve_attached [of _ FAILED], of "[]"]
  proof (elim exE conjE)
    fix tid t
    assume l1: "?l1 = ?l0\<lparr>trial_id := Some tid, ax_trial := Some t\<rparr>"
      and a: "failed ?F \<and> abandon_failed_trials ?G \<longrightarrow>
         tell ?E ?G ([] @ ?F # []) test_client0 =
           (case raised (mark_abandoned ?E t ?c1) of
              (Some e, c2) \<Rightarrow> (Some e, c2)
            | (None, c2) \<Rightarrow>
                (case tell_loop ?E ?G [] (?l1, c2) of (r, l', c') \<Rightarrow> (r, c')))"
    from l1 have t: "t = 0" by simp
    from a fl ab t abandoned show ?thesis by simp
  qed
  from before test_resolve_attached [of "[\<lparr>obj_name = ''f'', minimize = True\<rparr>]" COMPLETED]
    comp objs first fl ab second
  show ?thesis by simp
qed

text \<open>
  C2 as stated fails. The call stops at the first iteration that raises: a failed trial
  that comes after a trial whose id the engine does not know is never reached, and its
  engine trial 0 stays running, although alone it would have been abandoned. A failed
  trial whose own fetch raises is not marked either.
\<close>

theorem tell_leaves_engine_trial_pending:
  "tell (test_engine True True Map.empty [] None) (test_generator True [])
     [test_trial (Attribute (Some 7)) COMPLETED, test_trial (Attribute (Some 0)) FAILED]
     (test_client0\<lparr>ax_experiment := [(0, Running)]\<rparr>)
   = (Some (ValueError, ''trial''), test_client0\<lparr>ax_experiment := [(0, Running)]\<rparr>)
   \<and> tell (test_engine True True Map.empty [] None) (test_generator True [])
       [test_trial (Attribute (Some 0)) FAILED]
       (test_client0\<lparr>ax_experiment := [(0, Running)]\<rparr>)
     = (None, test_client0\<lparr>ax_experiment := [(0, Abandoned)]\<rparr>)
   \<and> tell (test_engine True True Map.empty [] None) (test_generator True [])
       [test_trial (Attribute (Some 7)) FAILED]
       (test_client0\<lparr>ax_experiment := [(0, Running)]\<rparr>)
     = (Some (unbound_local ''ax_trial''), test_client0\<lparr>ax_experiment := [(0, Running)]\<rparr>)"
  by (simp add: tell_def tell_trial_def tell_resolve_def tell_try_def
      tell_finally_def raised_def completed_def failed_def unbound_local_def
      test_trial_def test_generator_def test_engine_def test_client0_def
      test_get_trial_def test_set_status_def)




text \<open>
  The local variables outlive an iteration. Here the first trial is attached and
  completed as engine trial 0; the fetch for the second, failed trial raises, so the
  marking step finds \<open>ax_trial\<close> still bound to engine trial 0 and abandons it
  before the \<open>KeyError\<close> ends the call.
\<close>

lemma tell_marks_with_earlier_engine_trial:
  "tell (test_engine True True Map.empty [] None) (test_generator True [])
     [test_trial NoAttribute COMPLETED, test_trial (Attribute (Some 7)) FAILED] test_client0
   = (Some (KeyError, ''trial''), test_client0\<lparr>ax_experiment := [(0, Abandoned)]\<rparr>)"
  by (simp add: tell_def tell_trial_def tell_resolve_def tell_try_def tell_except_def
      tell_finally_def reduce_n_init_def raised_def completed_def failed_def
      test_trial_def test_generator_def test_engine_def test_client0_def test_new_trial_def
      test_get_trial_def test_set_status_def)

section \<open>Best values: properties\<close>

lemma argmin_scan_spec:
  "best_i < length ys \<Longrightarrow> ys ! best_i = best \<Longrightarrow> \<forall>y \<in> set ys. best \<le> y \<Longrightarrow>
   \<forall>j < best_i. best < ys ! j \<Longrightarrow>
   argmin_scan xs (length ys) best_i best < length (ys @ xs)
   \<and> (\<forall>z \<in> set (ys @ xs). (ys @ xs) ! argmin_scan xs (length ys) best_i best \<le> z)
   \<and> (\<forall>j < argmin_scan xs (length ys) best_i best.
         (ys @ xs) ! argmin_scan xs (length ys) best_i best < (ys @ xs) ! j)"
proof (induction xs arbitrary: ys best_i best)
  case Nil
  then show ?case by simp
next
  case (Cons x xs)
  show ?case
  proof (cases "x < best")
    case True
    have a: "length ys < length (ys @ [x])" by simp
    have b: "(ys @ [x]) ! length ys = x" by simp
    have c: "\<forall>y \<in> set (ys @ [x]). x \<le> y" using True Cons.prems(3) by auto
    have d: "\<forall>j < length ys. x < (ys @ [x]) ! j"
    proof (intro allI impI)
      fix j assume j: "j < length ys"
      then have "ys ! j \<in> set ys" by simp
      with Cons.prems(3) have "best \<le> ys ! j" by blast
      with True j show "x < (ys @ [x]) ! j" by (simp add: nth_append)
    qed
    from Cons.IH [OF a b c d] True show ?thesis by simp
  next
    case False
    have a: "best_i < length (ys @ [x])" using Cons.prems(1) by simp
    have b: "(ys @ [x]) ! best_i = best" using Cons.prems(1,2) by (simp add: nth_append)
    have c: "\<forall>y \<in> set (ys @ [x]). best \<le> y" using False Cons.prems(3) by auto
    have d: "\<forall>j < best_i. best < (ys @ [x]) ! j"
      using Cons.prems(1,4) by (auto simp: nth_append)
    from Cons.IH [OF a b c d] False show ?thesis by simp
  qed
qed

lemma argmax_scan_spec:
  "best_i < length ys \<Longrightarrow> ys ! best_i = best \<Longrightarrow> \<forall>y \<in> set ys. y \<le> best \<Longrightarrow>
   \<forall>j < best_i. ys ! j < best \<Longrightarrow>
   argmax_scan xs (length ys) best_i best < length (ys @ xs)
   \<and> (\<forall>z \<in> set (ys @ xs). z \<le> (ys @ xs) ! argmax_scan xs (length ys) best_i best)
   \<and> (\<forall>j < argmax_scan xs (length ys) best_i best.
         (ys @ xs) ! j < (ys @ xs) ! argmax_scan xs (length ys) best_i best)"
proof (induction xs arbitrary: ys best_i best)
  case Nil
  then show ?case by simp
next
  case (Cons x xs)
  show ?case
  proof (cases "best < x")
    case True
    have a: "length ys < length (ys @ [x])" by simp
    have b: "(ys @ [x]) ! length ys = x" by simp
    have c: "\<forall>y \<in> set (ys @ [x]). y \<le> x" using True Cons.prems(3) by auto
    have d: "\<forall>j < length ys. (ys @ [x]) ! j < x"
    proof (intro allI impI)
      fix j assume j: "j < length ys"
      then have "ys ! j \<in> set ys" by simp
      with Cons.prems(3) have "ys ! j \<le> best" by blast
      with True j show "(ys @ [x]) ! j < x" by (simp add: nth_append)
    qed
    from Cons.IH [OF a b c d] True show ?thesis by simp
  next
    case False
    have a: "best_i < length (ys @ [x])" using Cons.prems(1) by simp
    have b: "(ys @ [x]) ! best_i = best" using Cons.prems(1,2) by (simp add: nth_append)
    have c: "\<forall>y \<in> set (ys @ [x]). y \<le> best" using False Cons.prems(3) by auto
    have d: "\<forall>j < best_i. (ys @ [x]) ! j < best"
      using Cons.prems(1,4) by (auto simp: nth_append)
    from Cons.IH [OF a b c d] False show ?thesis by simp
  qed
qed

lemma argmin_first_minimum:
  "xs \<noteq> [] \<Longrightarrow>
   \<exists>i. argmin xs = Inr i \<and> i < length xs \<and> (\<forall>z \<in> set xs. xs ! i \<le> z)
     \<and> (\<forall>j < i. xs ! i < xs ! j)"
proof (cases xs)
  case Nil
  assume "xs \<noteq> []"
  with Nil show ?thesis by simp
next
  case (Cons x xs')
  have "argmin_scan xs' (length [x]) 0 x < length ([x] @ xs')
   \<and> (\<forall>z \<in> set ([x] @ xs'). ([x] @ xs') ! argmin_scan xs' (length [x]) 0 x \<le> z)
   \<and> (\<forall>j < argmin_scan xs' (length [x]) 0 x.
         ([x] @ xs') ! argmin_scan xs' (length [x]) 0 x < ([x] @ xs') ! j)"
    by (rule argmin_scan_spec) simp_all
  with Cons show ?thesis by (simp add: argmin_def)
qed

lemma argmax_first_maximum:
  "xs \<noteq> [] \<Longrightarrow>
   \<exists>i. argmax xs = Inr i \<and> i < length xs \<and> (\<forall>z \<in> set xs. z \<le> xs ! i)
     \<and> (\<forall>j < i. xs ! j < xs ! i)"
proof (cases xs)
  case Nil
  assume "xs \<noteq> []"
  with Nil show ?thesis by simp
next
  case (Cons x xs')
  have "argmax_scan xs' (length [x]) 0 x < length ([x] @ xs')
   \<and> (\<forall>z \<in> set ([x] @ xs'). z \<le> ([x] @ xs') ! argmax_scan xs' (length [x]) 0 x)
   \<and> (\<forall>j < argmax_scan xs' (length [x]) 0 x.
         ([x] @ xs') ! j < ([x] @ xs') ! argmax_scan xs' (length [x]) 0 x)"
    by (rule argmax_scan_spec) simp_all
  with Cons show ?thesis by (simp add: argmax_def)
qed

lemma obj_vals_Inr:
  "\<forall>entry \<in> set pp. fst (snd (snd entry)) n \<noteq> None \<Longrightarrow>
   obj_vals n pp = Inr (map (\<lambda>entry. the (fst (snd (snd entry)) n)) pp)"
  by (induction n pp rule: obj_vals.induct) auto

lemma index_first:
  "a \<in> set xs \<Longrightarrow> index xs a < length xs \<and> xs ! index xs a = a
     \<and> (\<forall>j < index xs a. xs ! j \<noteq> a)"
  by (induction xs) (auto simp: nth_Cons' less_Suc_eq_0_disj)

text \<open>
  C6. With more than one objective and a known objective name, on a non-empty Pareto
  set whose points all carry the objective, the selector returns the parameter values of
  a frontier point whose value for the objective is minimal when the objective is
  minimised and maximal otherwise, and every point before it in iteration order has a
  strictly worse value: ties go to the first occurrence.
\<close>

theorem get_best_values_pareto:
  assumes multi: "length (objectives self) > 1"
    and known: "objective_name \<in> set (map obj_name (objectives self))"
    and query: "get_pareto_optimal_parameters eng c = (Inr pp, c1)"
    and nonempty: "pp \<noteq> []"
    and present: "\<forall>entry \<in> set pp. fst (snd (snd entry)) objective_name \<noteq> None"
  shows "\<exists>i objective. i < length pp
    \<and> objective = objectives self ! index (map obj_name (objectives self)) objective_name
    \<and> obj_name objective = objective_name
    \<and> get_best_values eng self objective_name c = (Inr (Some (fst (snd (pp ! i)))), c1)
    \<and> (minimize objective \<longrightarrow>
          (\<forall>j < length pp. the (fst (snd (snd (pp ! i))) objective_name)
                            \<le> the (fst (snd (snd (pp ! j))) objective_name))
        \<and> (\<forall>j < i. the (fst (snd (snd (pp ! i))) objective_name)
                      < the (fst (snd (snd (pp ! j))) objective_name)))
    \<and> (\<not> minimize objective \<longrightarrow>
          (\<forall>j < length pp. the (fst (snd (snd (pp ! j))) objective_name)
                            \<le> the (fst (snd (snd (pp ! i))) objective_name))
        \<and> (\<forall>j < i. the (fst (snd (snd (pp ! j))) objective_name)
                      < the (fst (snd (snd (pp ! i))) objective_name)))"
proof -
  let ?names = "map obj_name (objectives self)"
  let ?objective = "objectives self ! index ?names objective_name"
  let ?vs = "map (\<lambda>entry. the (fst (snd (snd entry)) objective_name)) pp"
  from index_first [OF known] have name: "obj_name ?objective = objective_name"
    by (metis length_map nth_map)
  have vals: "obj_vals objective_name pp = Inr ?vs"
    using present by (rule obj_vals_Inr)
  have ne: "?vs \<noteq> []" using nonempty by simp
  have pv: "\<And>i. i < length pp \<Longrightarrow> param_vals pp ! i = fst (snd (pp ! i))"
    by (simp add: param_vals_def split: prod.splits)
  show ?thesis
  proof (cases "minimize ?objective")
    case True
    from argmin_first_minimum [OF ne] obtain i where i: "argmin ?vs = Inr i" "i < length pp"
      "\<forall>z \<in> set ?vs. ?vs ! i \<le> z" "\<forall>j < i. ?vs ! i < ?vs ! j"
      by auto
    have run: "get_best_values eng self objective_name c = (Inr (Some (fst (snd (pp ! i)))), c1)"
      using multi known query name vals i(1,2) True pv [OF i(2)]
      by (simp add: get_best_values_def Let_def)
    have le: "\<forall>j < length pp. the (fst (snd (snd (pp ! i))) objective_name)
                            \<le> the (fst (snd (snd (pp ! j))) objective_name)"
      using i(2,3) by auto
    have lt: "\<forall>j < i. the (fst (snd (snd (pp ! i))) objective_name)
                      < the (fst (snd (snd (pp ! j))) objective_name)"
      using i(2,4) by auto
    from i(2) name run le lt True show ?thesis by blast
  next
    case False
    from argmax_first_maximum [OF ne] obtain i where i: "argmax ?vs = Inr i" "i < length pp"
      "\<forall>z \<in> set ?vs. z \<le> ?vs ! i" "\<forall>j < i. ?vs ! j < ?vs ! i"
      by auto
    have run: "get_best_values eng self objective_name c = (Inr (Some (fst (snd (pp ! i)))), c1)"
      using multi known query name vals i(1,2) False pv [OF i(2)]
      by (simp add: get_best_values_def Let_def)
    have le: "\<forall>j < length pp. the (fst (snd (snd (pp ! j))) objective_name)
                            \<le> the (fst (snd (snd (pp ! i))) objective_name)"
      using i(2,3) by auto
    have lt: "\<forall>j < i. the (fst (snd (snd (pp ! j))) objective_name)
                      < the (fst (snd (snd (pp ! i))) objective_name)"
      using i(2,4) by auto
    from i(2) name run le lt False show ?thesis by blast
  qed
qed

theorem get_best_values_pareto_witness:
  "length (objectives (test_generator False test_objectives)) > 1
   \<and> ''f'' \<in> set (map obj_name (objectives (test_generator False test_objectives)))
   \<and> get_pareto_optimal_parameters (test_engine True True Map.empty test_front None) test_client0
       = (Inr test_front, test_client0)
   \<and> test_front \<noteq> []
   \<and> list_all (\<lambda>entry. fst (snd (snd entry)) ''f'' \<noteq> None) test_front
   \<and> (\<exists>i. i < length test_front
        \<and> get_best_values (test_engine True True Map.empty test_front None)
            (test_generator False test_objectives) ''f'' test_client0
          = (Inr (Some (fst (snd (test_front ! i)))), test_client0))
   \<and> fst (get_best_values (test_engine True True Map.empty test_front None)
            (test_generator False test_objectives) ''f'' test_client0)
       = Inr (Some [''x0'' \<mapsto> 2])
   \<and> fst (get_best_values (test_engine True True Map.empty test_front None)
            (test_generator False test_objectives) ''g'' test_client0)
       = Inr (Some [''x0'' \<mapsto> 2])"
proof -
  let ?E = "test_engine True True Map.empty test_front None"
  let ?G = "test_generator False test_objectives"
  have multi: "length (objectives ?G) > 1"
    by (simp add: test_generator_def test_objectives_def)
  have known: "''f'' \<in> set (map obj_name (objectives ?G))"
    by (simp add: test_generator_def test_objectives_def)
  have query: "get_pareto_optimal_parameters ?E test_client0 = (Inr test_front, test_client0)"
    by (simp add: test_engine_def)
  have nonempty: "test_front \<noteq> []" by (simp add: test_front_def)
  have present: "\<forall>entry \<in> set test_front. fst (snd (snd entry)) ''f'' \<noteq> None"
    by (simp add: test_front_def)
  from get_best_values_pareto [OF multi known query nonempty present]
  have ex: "\<exists>i. i < length test_front
        \<and> get_best_values ?E ?G ''f'' test_client0
          = (Inr (Some (fst (snd (test_front ! i)))), test_client0)"
    by blast
  have f: "fst (get_best_values ?E ?G ''f'' test_client0) = Inr (Some [''x0'' \<mapsto> 2])"
    by (simp add: get_best_values_def test_engine_def test_generator_def test_objectives_def
        test_front_def argmin_def param_vals_def)
  have g: "fst (get_best_values ?E ?G ''g'' test_client0) = Inr (Some [''x0'' \<mapsto> 2])"
    by (simp add: get_best_values_def test_engine_def test_generator_def test_objectives_def
        test_front_def argmax_def param_vals_def)
  from multi known query nonempty present ex f g show ?thesis
    by (simp add: list_all_iff)
qed

text \<open>
  The absent result. With a single objective and a known objective name, when the
  engine's best-point query finds nothing the selector returns \<open>None\<close> and does not
  raise. With more than one objective the selector never returns \<open>None\<close>: it
  returns a frontier point or raises.
\<close>

lemma get_best_values_none_single_objective:
  "length (objectives self) \<le> 1 \<Longrightarrow>
   objective_name \<in> set (map obj_name (objectives self)) \<Longrightarrow>
   get_best_parameters eng c = (Inr None, c1) \<Longrightarrow>
   get_best_values eng self objective_name c = (Inr None, c1)"
  by (simp add: get_best_values_def Let_def)

lemma get_best_values_pareto_never_none:
  "length (objectives self) > 1 \<Longrightarrow> fst (get_best_values eng self objective_name c) \<noteq> Inr None"
  by (auto simp: get_best_values_def Let_def split: prod.splits sum.splits)

text \<open>
  C5. A best-value query made when nothing has been completed is to return an explicit
  absent result and not to raise. With two objectives the code does not: on an empty
  Pareto set the query for the first objective ends in the \<open>ValueError\<close> that
  \<open>argmin\<close> raises on an empty sequence.
\<close>

theorem get_best_values_empty_pareto_raises:
  "get_best_values (test_engine True True Map.empty [] None)
     (test_generator False test_objectives) ''f'' test_client0
   = (Inl (ValueError, ''attempt to get argmin of an empty sequence''), test_client0)"
  by (simp add: get_best_values_def test_engine_def test_generator_def test_objectives_def
      argmin_def)

section \<open>Sending and merging: properties\<close>

lemma map_list_update_same:
  "f y = f (xs ! i) \<Longrightarrow> map f (xs[i := y]) = map f xs"
  by (induction xs arbitrary: i) (auto split: nat.splits)

text \<open>
  C9. When the strategy holds a fitted model, \<open>_prepare_to_send\<close> clears the fitted
  model of the current step and the strategy's own model reference, and leaves the index
  of the current step, every step's \<open>num_trials\<close>, transition criteria and model kind,
  and the rest of the client as they were; without a fitted model it changes nothing.
  \<open>_update\<close> leaves the generator pointing at its original client object, whose
  content is now that of the snapshot's client; no other object of the store changes, and
  the generator's other attributes are the snapshot's.
\<close>

theorem serialization_guard:
  "(gs_model (generation_strategy c) \<noteq> None \<longrightarrow>
      curr (generation_strategy c) < length (steps (generation_strategy c)) \<longrightarrow>
        fitted_model (current_step (generation_strategy (prepare_to_send c))) = None
      \<and> gs_model (generation_strategy (prepare_to_send c)) = None
      \<and> curr (generation_strategy (prepare_to_send c)) = curr (generation_strategy c)
      \<and> map num_trials (steps (generation_strategy (prepare_to_send c)))
          = map num_trials (steps (generation_strategy c))
      \<and> map transition_criteria (steps (generation_strategy (prepare_to_send c)))
          = map transition_criteria (steps (generation_strategy c))
      \<and> map model (steps (generation_strategy (prepare_to_send c)))
          = map model (steps (generation_strategy c))
      \<and> outcome_constraints (prepare_to_send c) = outcome_constraints c
      \<and> ax_experiment (prepare_to_send c) = ax_experiment c)
   \<and> (gs_model (generation_strategy c) = None \<longrightarrow> prepare_to_send c = c)
   \<and> (store (ax_client self) = Some object_old \<longrightarrow>
      store (ax_client new_generator) = Some object_new \<longrightarrow>
        ax_client (fst (update self new_generator store)) = ax_client self
      \<and> snd (update self new_generator store) (ax_client self) = Some object_new
      \<and> (\<forall>a. a \<noteq> ax_client self \<longrightarrow> snd (update self new_generator store) a = store a)
      \<and> fst (update self new_generator store) = new_generator\<lparr>ax_client := ax_client self\<rparr>)"
proof (intro conjI impI)
  assume m: "gs_model (generation_strategy c) \<noteq> None"
    and i: "curr (generation_strategy c) < length (steps (generation_strategy c))"
  have p: "generation_strategy (prepare_to_send c) =
      (generation_strategy c)
        \<lparr>steps := (steps (generation_strategy c))[curr (generation_strategy c) :=
             (current_step (generation_strategy c))\<lparr>fitted_model := None\<rparr>],
         gs_model := None\<rparr>"
    using m by (simp add: prepare_to_send_def Let_def)
  show "fitted_model (current_step (generation_strategy (prepare_to_send c))) = None"
    using i by (simp add: p current_step_def)
  show "gs_model (generation_strategy (prepare_to_send c)) = None" by (simp add: p)
  show "curr (generation_strategy (prepare_to_send c)) = curr (generation_strategy c)"
    by (simp add: p)
  show "map num_trials (steps (generation_strategy (prepare_to_send c)))
          = map num_trials (steps (generation_strategy c))"
    by (simp add: p current_step_def map_list_update_same)
  show "map transition_criteria (steps (generation_strategy (prepare_to_send c)))
          = map transition_criteria (steps (generation_strategy c))"
    by (simp add: p current_step_def map_list_update_same)
  show "map model (steps (generation_strategy (prepare_to_send c)))
          = map model (steps (generation_strategy c))"
    by (simp add: p current_step_def map_list_update_same)
  show "outcome_constraints (prepare_to_send c) = outcome_constraints c"
    by (simp add: prepare_to_send_def Let_def)
  show "ax_experiment (prepare_to_send c) = ax_experiment c"
    by (simp add: prepare_to_send_def Let_def)
next
  assume "gs_model (generation_strategy c) = None"
  then show "prepare_to_send c = c" by (simp add: prepare_to_send_def Let_def)
next
  assume s: "store (ax_client self) = Some object_old"
    "store (ax_client new_generator) = Some object_new"
  show "ax_client (fst (update self new_generator store)) = ax_client self"
    by (simp add: update_def Let_def)
  show "snd (update self new_generator store) (ax_client self) = Some object_new"
    using s by (simp add: update_def Let_def update_object_def)
  show "\<forall>a. a \<noteq> ax_client self \<longrightarrow> snd (update self new_generator store) a = store a"
    using s by (simp add: update_def Let_def)
  show "fst (update self new_generator store) = new_generator\<lparr>ax_client := ax_client self\<rparr>"
    by (simp add: update_def Let_def generator_update_def update_object_def)
qed

theorem serialization_guard_witness:
  "gs_model (generation_strategy test_client_fitted) \<noteq> None
   \<and> curr (generation_strategy test_client_fitted)
       < length (steps (generation_strategy test_client_fitted))
   \<and> fitted_model (current_step (generation_strategy test_client_fitted)) = Some 1
   \<and> fitted_model (current_step (generation_strategy (prepare_to_send test_client_fitted))) = None
   \<and> gs_model (generation_strategy (prepare_to_send test_client_fitted)) = None
   \<and> curr (generation_strategy (prepare_to_send test_client_fitted)) = 1
   \<and> map num_trials (steps (generation_strategy (prepare_to_send test_client_fitted))) = [4, -1]
   \<and> [0 \<mapsto> test_client0, 1 \<mapsto> test_client_fitted] (ax_client (test_generator False []))
       = Some test_client0
   \<and> [0 \<mapsto> test_client0, 1 \<mapsto> test_client_fitted]
         (ax_client ((test_generator True [])\<lparr>ax_client := 1\<rparr>)) = Some test_client_fitted
   \<and> ax_client (fst (update (test_generator False []) ((test_generator True [])\<lparr>ax_client := 1\<rparr>)
                        [0 \<mapsto> test_client0, 1 \<mapsto> test_client_fitted])) = 0
   \<and> snd (update (test_generator False []) ((test_generator True [])\<lparr>ax_client := 1\<rparr>)
            [0 \<mapsto> test_client0, 1 \<mapsto> test_client_fitted]) 0 = Some test_client_fitted"
proof -
  have m: "gs_model (generation_strategy test_client_fitted) \<noteq> None"
    by (simp add: test_client_fitted_def)
  have i: "curr (generation_strategy test_client_fitted)
       < length (steps (generation_strategy test_client_fitted))"
    by (simp add: test_client_fitted_def test_client0_def)
  have f: "fitted_model (current_step (generation_strategy test_client_fitted)) = Some 1"
    by (simp add: test_client_fitted_def test_client0_def current_step_def)
  have cu: "curr (generation_strategy test_client_fitted) = 1"
    by (simp add: test_client_fitted_def)
  have nt: "map num_trials (steps (generation_strategy test_client_fitted)) = [4, -1]"
    by (simp add: test_client_fitted_def test_client0_def)
  have a0: "ax_client (test_generator False []) = 0" by (simp add: test_generator_def)
  have s0: "[0 \<mapsto> test_client0, 1 \<mapsto> test_client_fitted] (ax_client (test_generator False []))
       = Some test_client0"
    by (simp add: test_generator_def)
  have s1: "[0 \<mapsto> test_client0, 1 \<mapsto> test_client_fitted]
         (ax_client ((test_generator True [])\<lparr>ax_client := 1\<rparr>)) = Some test_client_fitted"
    by simp
  from serialization_guard [of test_client_fitted "[0 \<mapsto> test_client0, 1 \<mapsto> test_client_fitted]"
      "test_generator False []" test_client0 "(test_generator True [])\<lparr>ax_client := 1\<rparr>"
      test_client_fitted]
    m i f cu nt a0 s0 s1
  show ?thesis by simp
qed

end
